theory Spec2Isabelle
  imports Complex_Main "HOL-Library.Product_Lexorder" "HOL-Library.Multiset"
begin

section \<open>Python values, errors and strings\<close>

text \<open>
  The chapter records, outline stubs and parser results of the program are Python
  dictionaries decoded from JSON. A value is one of the JSON shapes; a dictionary is
  an association list in insertion order, read with \<open>map_of\<close>. A JSON float behaves
  like \<open>PInt\<close> at every place it can reach in the modelled code (it is not iterable,
  has no \<open>lower\<close>, \<open>get\<close> or \<open>append\<close>), so numbers are integers here.
  Strings are \<open>char list\<close>; \<open>str.lower\<close> is modelled on the ASCII letters.
\<close>

datatype pyval =
    PNone
  | PBool bool
  | PInt int
  | PStr string
  | PList "pyval list"
  | PDict "(string \<times> pyval) list"

type_synonym pydict = "(string \<times> pyval) list"

datatype py_error =
    TypeError
  | AttributeError
  | KeyError
  | IndexError
  | ZeroDivisionError
  | OutputParserException

text \<open>\<open>d.get(k, default)\<close> on a dictionary.\<close>

definition dict_get :: "pydict \<Rightarrow> string \<Rightarrow> pyval \<Rightarrow> pyval" where
  "dict_get d k dflt = (case map_of d k of Some v \<Rightarrow> v | None \<Rightarrow> dflt)"

text \<open>\<open>for x in v\<close>: the items a value yields, or the TypeError of a non-iterable.\<close>

fun py_iter :: "pyval \<Rightarrow> py_error + pyval list" where
  "py_iter (PList xs) = Inr xs"
| "py_iter (PDict kvs) = Inr (map (\<lambda>kv. PStr (fst kv)) kvs)"
| "py_iter (PStr s) = Inr (map (\<lambda>c. PStr [c]) s)"
| "py_iter PNone = Inl TypeError"
| "py_iter (PBool b) = Inl TypeError"
| "py_iter (PInt i) = Inl TypeError"

definition lower_char :: "char \<Rightarrow> char" where
  "lower_char c =
     (case map_of (zip ''ABCDEFGHIJKLMNOPQRSTUVWXYZ'' ''abcdefghijklmnopqrstuvwxyz'') c of
        Some l \<Rightarrow> l
      | None \<Rightarrow> c)"

definition lower :: "string \<Rightarrow> string" where
  "lower s = map lower_char s"

fun starts_with :: "string \<Rightarrow> string \<Rightarrow> bool" where
  "starts_with [] s = True"
| "starts_with (p # ps) [] = False"
| "starts_with (p # ps) (c # cs) = (p = c \<and> starts_with ps cs)"

text \<open>\<open>p in s\<close> on strings: \<open>p\<close> occurs in \<open>s\<close> as a contiguous substring.\<close>

fun py_in_str :: "string \<Rightarrow> string \<Rightarrow> bool" where
  "py_in_str p [] = (p = [])"
| "py_in_str p (c # cs) = (starts_with p (c # cs) \<or> py_in_str p cs)"

text \<open>\<open>str(i)\<close> for an integer, as an f-string renders it.\<close>

definition digit_char :: "nat \<Rightarrow> char" where
  "digit_char d = ''0123456789'' ! d"

function str_nat :: "nat \<Rightarrow> string" where
  "str_nat n = (if n < 10 then [digit_char n] else str_nat (n div 10) @ [digit_char (n mod 10)])"
  by pat_completeness auto
termination
  by (relation "measure id") auto

declare str_nat.simps [simp del]

definition str_int :: "int \<Rightarrow> string" where
  "str_int i = (if i < 0 then CHR ''-'' # str_nat (nat (- i)) else str_nat (nat i))"

section \<open>config/settings.py\<close>

definition MAX_CONTEXT_ITEMS :: nat where
  "MAX_CONTEXT_ITEMS = 15"

definition CRITICAL_CONTEXT_WEIGHT :: int where
  "CRITICAL_CONTEXT_WEIGHT = 3"

section \<open>utils/context_manager.py\<close>

text \<open>
  A context point is the dictionary \<open>add_context_point\<close> appends; its five keys are
  fixed, so it is a record (the keys \<open>chapter\<close> and \<open>type\<close> are the fields
  \<open>pchapter\<close> and \<open>ptype\<close>). The store is the two attributes of \<open>ContextManager\<close>.
\<close>

record context_point =
  content :: pyval
  pchapter :: int
  importance :: string
  ptype :: string
  weight :: int

record store =
  context_points :: "context_point list"
  chapter_summaries :: "int \<rightharpoonup> pyval"

record context_bundle =
  previous_chapters :: "pyval list"
  key_events :: "pyval list"
  character_developments :: "pyval list"
  open_hooks :: "pyval list"

definition init_store :: store where
  "init_store = \<lparr>context_points = [], chapter_summaries = Map.empty\<rparr>"

definition weight_map :: "string \<rightharpoonup> int" where
  "weight_map = [''low'' \<mapsto> 1, ''medium'' \<mapsto> 2, ''high'' \<mapsto> 3,
                 ''critical'' \<mapsto> CRITICAL_CONTEXT_WEIGHT]"

definition add_context_point :: "pyval \<Rightarrow> int \<Rightarrow> string \<Rightarrow> string \<Rightarrow> store \<Rightarrow> store" where
  "add_context_point cont chap imp context_type s =
     (let w = (case weight_map (lower imp) of Some v \<Rightarrow> v | None \<Rightarrow> 2)
      in s\<lparr>context_points := context_points s @
            [\<lparr>content = cont, pchapter = chap, importance = imp,
              ptype = context_type, weight = w\<rparr>]\<rparr>)"

text \<open>
  \<open>xs.sort(key=lambda x: (x["weight"], x["chapter"]), reverse=True)\<close>: the stable
  sort of CPython, which for \<open>reverse=True\<close> reverses the list, sorts it ascending
  and stably, and reverses it again, so that equal keys keep their order.
\<close>

definition sort_key_of :: "context_point \<Rightarrow> int \<times> int" where
  "sort_key_of p = (weight p, pchapter p)"

definition sort_points :: "context_point list \<Rightarrow> context_point list" where
  "sort_points ps = rev (sort_key sort_key_of (rev ps))"

definition prune_context :: "store \<Rightarrow> store" where
  "prune_context s =
     (if length (context_points s) > MAX_CONTEXT_ITEMS * 3
      then s\<lparr>context_points := take (MAX_CONTEXT_ITEMS * 2) (sort_points (context_points s))\<rparr>
      else s)"

text \<open>The local list \<open>relevant_points\<close> of \<open>get_context_for_chapter\<close>, after its sort.\<close>

definition relevant_points :: "store \<Rightarrow> int \<Rightarrow> context_point list" where
  "relevant_points s chapter_num =
     sort_points (filter (\<lambda>point. pchapter point < chapter_num) (context_points s))"

definition contents_of_type :: "string \<Rightarrow> context_point list \<Rightarrow> pyval list" where
  "contents_of_type t ps = map content (filter (\<lambda>point. ptype point = t) ps)"

text \<open>
  \<open>get_context_for_chapter\<close> returns the bundle together with the store the object
  holds afterwards: the method sorts a list built by a comprehension and assigns to
  no attribute.
\<close>

definition get_context_for_chapter :: "store \<Rightarrow> int \<Rightarrow> context_bundle \<times> store" where
  "get_context_for_chapter s chapter_num =
     (if chapter_num = 1
      then (\<lparr>previous_chapters = [], key_events = [],
             character_developments = [], open_hooks = []\<rparr>, s)
      else
        (let prev = List.map_filter (chapter_summaries s) [1 .. chapter_num - 1];
             rel = relevant_points s chapter_num
         in (\<lparr>previous_chapters = prev,
              key_events = take MAX_CONTEXT_ITEMS (contents_of_type ''event'' rel),
              character_developments =
                take MAX_CONTEXT_ITEMS (contents_of_type ''character_development'' rel),
              open_hooks = take MAX_CONTEXT_ITEMS (contents_of_type ''hook'' rel)\<rparr>, s)))"

text \<open>
  \<open>update_with_chapter\<close> mutates the store and may raise part-way (a non-iterable
  \<open>key_events\<close>, an event without \<open>lower\<close>); the points appended before the raise stay
  in the store. Each step therefore returns the store it leaves together with the
  exception, if any.
\<close>

text \<open>\<open>if isinstance(v, str): v = [v] if v else []\<close>\<close>

definition str_to_list :: "pyval \<Rightarrow> pyval" where
  "str_to_list v = (case v of PStr t \<Rightarrow> (if t = [] then PList [] else PList [v]) | _ \<Rightarrow> v)"

definition event_importance :: "string \<Rightarrow> string" where
  "event_importance t =
     (if py_in_str ''critical'' (lower t) \<or> py_in_str ''important'' (lower t)
      then ''high'' else ''medium'')"

fun add_events :: "pyval list \<Rightarrow> int \<Rightarrow> store \<Rightarrow> store \<times> py_error option" where
  "add_events [] chapter_num s = (s, None)"
| "add_events (event # rest) chapter_num s =
     (case event of
        PStr t \<Rightarrow>
          add_events rest chapter_num
            (add_context_point event chapter_num (event_importance t) ''event'' s)
      | _ \<Rightarrow> (s, Some AttributeError))"

definition add_high_points :: "pyval list \<Rightarrow> int \<Rightarrow> string \<Rightarrow> store \<Rightarrow> store" where
  "add_high_points items chapter_num context_type s =
     fold (\<lambda>item. add_context_point item chapter_num ''high'' context_type) items s"

definition add_character_dev :: "pyval \<Rightarrow> int \<Rightarrow> store \<Rightarrow> store" where
  "add_character_dev character_dev chapter_num s =
     (case character_dev of
        PStr t \<Rightarrow>
          (if t \<noteq> []
           then add_context_point character_dev chapter_num ''high'' ''character_development'' s
           else s)
      | PList devs \<Rightarrow> add_high_points devs chapter_num ''character_development'' s
      | _ \<Rightarrow> s)"

definition chapter_summary :: "pydict \<Rightarrow> int \<Rightarrow> pyval" where
  "chapter_summary chapter chapter_num =
     PDict [(''title'', dict_get chapter ''title'' (PStr (''Chapter '' @ str_int chapter_num))),
            (''summary'', dict_get chapter ''summary'' (PStr ''No summary available.'')),
            (''key_events'', dict_get chapter ''key_events'' (PList []))]"

text \<open>The statements of \<open>update_with_chapter\<close> before its last one, the call of the pruning.\<close>

definition update_before_prune :: "store \<Rightarrow> pydict \<Rightarrow> int \<Rightarrow> store \<times> py_error option" where
  "update_before_prune s chapter chapter_num =
     (let s1 = s\<lparr>chapter_summaries :=
                  (chapter_summaries s)(chapter_num \<mapsto> chapter_summary chapter chapter_num)\<rparr>
      in case py_iter (str_to_list (dict_get chapter ''key_events'' (PList []))) of
           Inl e \<Rightarrow> (s1, Some e)
         | Inr events \<Rightarrow>
             (case add_events events chapter_num s1 of
                (s2, Some e) \<Rightarrow> (s2, Some e)
              | (s2, None) \<Rightarrow>
                  (let s3 = add_character_dev
                              (dict_get chapter ''character_development'' (PStr [])) chapter_num s2
                   in case py_iter (str_to_list
                                      (dict_get chapter ''next_chapter_hooks'' (PList []))) of
                        Inl e \<Rightarrow> (s3, Some e)
                      | Inr hooks \<Rightarrow> (add_high_points hooks chapter_num ''hook'' s3, None))))"

definition update_with_chapter :: "store \<Rightarrow> pydict \<Rightarrow> int \<Rightarrow> store \<times> py_error option" where
  "update_with_chapter s chapter chapter_num =
     (case update_before_prune s chapter chapter_num of
        (s', Some e) \<Rightarrow> (s', Some e)
      | (s', None) \<Rightarrow> (prune_context s', None))"

text \<open>
  The order the specification gives for both sorts: higher weight first, and among
  equal weights the more recent chapter first.
\<close>

definition ranks_before :: "context_point \<Rightarrow> context_point \<Rightarrow> bool" where
  "ranks_before p q =
     (weight q < weight p \<or> (weight q = weight p \<and> pchapter q \<le> pchapter p))"

definition empty_bundle :: context_bundle where
  "empty_bundle = \<lparr>previous_chapters = [], key_events = [],
                    character_developments = [], open_hooks = []\<rparr>"

text \<open>The points a call of \<open>update_with_chapter\<close> has appended when it reaches the pruning.\<close>

definition points_added :: "store \<Rightarrow> pydict \<Rightarrow> int \<Rightarrow> context_point list" where
  "points_added s chapter chapter_num =
     drop (length (context_points s))
       (context_points (fst (update_before_prune s chapter chapter_num)))"

text \<open>
  The importance of an event as the specification words it: high exactly when the
  text, compared case-insensitively, contains \<open>critical\<close> or \<open>important\<close>.
\<close>

definition spec_event_importance :: "string \<Rightarrow> string" where
  "spec_event_importance t =
     (if (\<exists>a b. lower t = a @ ''critical'' @ b) \<or> (\<exists>a b. lower t = a @ ''important'' @ b)
      then ''high'' else ''medium'')"

definition event_point :: "int \<Rightarrow> string \<Rightarrow> context_point" where
  "event_point chapter_num t =
     \<lparr>content = PStr t, pchapter = chapter_num, importance = spec_event_importance t,
      ptype = ''event'', weight = (if spec_event_importance t = ''high'' then 3 else 2)\<rparr>"

section \<open>More of Python: len, truth, item assignment\<close>

text \<open>\<open>len(v)\<close>. Dictionaries here have distinct keys, as those decoded from JSON do.\<close>

fun py_len :: "pyval \<Rightarrow> py_error + nat" where
  "py_len (PList xs) = Inr (length xs)"
| "py_len (PStr s) = Inr (length s)"
| "py_len (PDict kvs) = Inr (length kvs)"
| "py_len PNone = Inl TypeError"
| "py_len (PBool b) = Inl TypeError"
| "py_len (PInt i) = Inl TypeError"

text \<open>\<open>d[k] = v\<close>: an existing key keeps its place, a new one goes last.\<close>

definition dict_set :: "('k \<times> 'v) list \<Rightarrow> 'k \<Rightarrow> 'v \<Rightarrow> ('k \<times> 'v) list" where
  "dict_set d k v =
     (case map_of d k of
        None \<Rightarrow> d @ [(k, v)]
      | Some old \<Rightarrow> map (\<lambda>kv. if fst kv = k then (k, v) else kv) d)"

text \<open>The truth value of \<open>v\<close> in \<open>if v\<close> and \<open>not v\<close>.\<close>

fun py_truthy :: "pyval \<Rightarrow> bool" where
  "py_truthy PNone = False"
| "py_truthy (PBool b) = b"
| "py_truthy (PInt i) = (i \<noteq> 0)"
| "py_truthy (PStr s) = (s \<noteq> [])"
| "py_truthy (PList xs) = (xs \<noteq> [])"
| "py_truthy (PDict kvs) = (kvs \<noteq> [])"

text \<open>\<open>v == n\<close> for an integer \<open>n\<close>: a bool compares as 0 or 1, \<open>None\<close> and the rest differ.\<close>

fun py_eq_int :: "pyval \<Rightarrow> int \<Rightarrow> bool" where
  "py_eq_int (PInt k) n = (k = n)"
| "py_eq_int (PBool b) n = ((if b then 1 else 0) = n)"
| "py_eq_int PNone n = False"
| "py_eq_int (PStr s) n = False"
| "py_eq_int (PList xs) n = False"
| "py_eq_int (PDict kvs) n = False"

text \<open>\<open>t in v\<close> for a string \<open>t\<close>: substring of a string, item of a list, key of a dictionary.\<close>

fun py_str_in :: "string \<Rightarrow> pyval \<Rightarrow> py_error + bool" where
  "py_str_in t (PStr s) = Inr (py_in_str t s)"
| "py_str_in t (PList xs) = Inr (PStr t \<in> set xs)"
| "py_str_in t (PDict kvs) = Inr (map_of kvs t \<noteq> None)"
| "py_str_in t PNone = Inl TypeError"
| "py_str_in t (PBool b) = Inl TypeError"
| "py_str_in t (PInt i) = Inl TypeError"

text \<open>\<open>", ".join(xs)\<close>\<close>

fun join_comma :: "string list \<Rightarrow> string" where
  "join_comma [] = []"
| "join_comma [x] = x"
| "join_comma (x # y # ys) = x @ '', '' @ join_comma (y # ys)"

text \<open>
  \<open>xs[i]\<close> on a list, with Python's negative indices, and \<open>int(x)\<close>, which truncates
  towards zero.
\<close>

definition list_index :: "'a list \<Rightarrow> int \<Rightarrow> py_error + 'a" where
  "list_index xs i =
     (let n = int (length xs)
      in if 0 \<le> i \<and> i < n then Inr (xs ! nat i)
         else if - n \<le> i \<and> i < 0 then Inr (xs ! nat (n + i))
         else Inl IndexError)"

definition py_int :: "rat \<Rightarrow> int" where
  "py_int x = (if 0 \<le> x then \<lfloor>x\<rfloor> else \<lceil>x\<rceil>)"

section \<open>story/chapters.py\<close>

text \<open>
  The attributes of \<open>ChapterGenerator\<close> that its methods read or write. \<open>genres\<close> is a
  list of strings: the constructor calls \<open>lower\<close> on each. The values of a genre's arc
  are lists of strings (the stage names, the tracked elements) and integers (the
  current stage); \<open>_initialize_genre_arcs\<close> builds them and \<open>_update_genre_arcs\<close>
  only appends strings and assigns integers, so an arc is a dictionary of such
  values. The language model, the characters, region, tone and pacing reach only the
  prompt.
\<close>

datatype arc_value = AList "string list" | AInt int

type_synonym arc = "(string \<times> arc_value) list"

record chapter_generator =
  story_outline :: pydict
  context_manager :: store
  genres :: "string list"
  genre_arcs :: "(string \<times> arc) list"

text \<open>The dictionary a genre gets in \<open>_initialize_genre_arcs\<close>.\<close>

definition initial_arc :: "string \<Rightarrow> arc" where
  "initial_arc genre =
     (let genre_lower = lower genre
      in if py_in_str ''romance'' genre_lower then
           [(''relationship_stages'',
               AList [''Initial meeting'', ''Attraction'', ''Obstacles'', ''Growth'', ''Resolution'']),
            (''current_stage'', AInt 0),
            (''emotional_beats'', AList []),
            (''key_moments'', AList [])]
         else if py_in_str ''mystery'' genre_lower then
           [(''mystery_elements'',
               AList [''Initial problem'', ''Clues'', ''Red herrings'', ''Revelations'', ''Solution'']),
            (''current_element'', AInt 0),
            (''revelations'', AList []),
            (''open_questions'', AList [])]
         else if py_in_str ''adventure'' genre_lower then
           [(''journey_stages'',
               AList [''Call to adventure'', ''Challenges'', ''Trials'', ''Climactic challenge'',
                      ''Return'']),
            (''current_stage'', AInt 0),
            (''locations'', AList []),
            (''achievements'', AList [])]
         else if py_in_str ''historical'' genre_lower \<or> py_in_str ''period'' genre_lower then
           [(''historical_elements'',
               AList [''Setting establishment'', ''Period tensions'', ''Historical events'',
                      ''Character adaptation'', ''Resolution'']),
            (''current_element'', AInt 0),
            (''historical_references'', AList []),
            (''period_authentic_elements'', AList [])]
         else if py_in_str ''fantasy'' genre_lower \<or> py_in_str ''mytholog'' genre_lower then
           [(''magical_elements'',
               AList [''World rules'', ''Magic introduction'', ''Powers development'',
                      ''Magical conflict'', ''Magical resolution'']),
            (''current_element'', AInt 0),
            (''magical_components'', AList []),
            (''mythological_references'', AList [])]
         else
           [(''arc_stages'',
               AList [''Introduction'', ''Development'', ''Complication'', ''Climax'', ''Resolution'']),
            (''current_stage'', AInt 0),
            (''key_elements'', AList []),
            (''genre_markers'', AList [])])"

definition initialize_genre_arcs :: "string list \<Rightarrow> (string \<times> arc) list" where
  "initialize_genre_arcs gs =
     fold (\<lambda>genre arcs. dict_set arcs genre (initial_arc genre)) gs []"

text \<open>
  \<open>_get_chapter_outline\<close>: the first item of \<open>story_outline["chapters"]\<close> whose
  \<open>chapter_number\<close> equals the number asked for, else a default outline. An item
  without \<open>get\<close> raises AttributeError.
\<close>

fun find_chapter :: "pyval list \<Rightarrow> int \<Rightarrow> py_error + pydict option" where
  "find_chapter [] chapter_num = Inr None"
| "find_chapter (chapter # rest) chapter_num =
     (case chapter of
        PDict d \<Rightarrow>
          (if py_eq_int (dict_get d ''chapter_number'' PNone) chapter_num
           then Inr (Some d)
           else find_chapter rest chapter_num)
      | _ \<Rightarrow> Inl AttributeError)"

definition get_chapter_outline :: "chapter_generator \<Rightarrow> int \<Rightarrow> py_error + pydict" where
  "get_chapter_outline g chapter_num =
     (case py_iter (dict_get (story_outline g) ''chapters'' (PList [])) of
        Inl e \<Rightarrow> Inl e
      | Inr chapters \<Rightarrow>
          (case find_chapter chapters chapter_num of
             Inl e \<Rightarrow> Inl e
           | Inr (Some chapter) \<Rightarrow> Inr chapter
           | Inr None \<Rightarrow>
               Inr [(''chapter_number'', PInt chapter_num),
                    (''title'', PStr (''Chapter '' @ str_int chapter_num)),
                    (''summary'', PStr ''No summary available.''),
                    (''key_points'', PList []),
                    (''characters_involved'', PList []),
                    (''setting_details'', PStr []),
                    (''cultural_elements'', PList []),
                    (''genre_elements'', PList [])]))"

text \<open>
  \<open>total_chapters = len(self.story_outline.get("chapters", []))\<close> and
  \<open>chapter_position = chapter_num / total_chapters\<close>. The quotient is the exact
  rational: Python's division of integers rounds it correctly to a double, 0.25 and
  0.75 are doubles, and for a chapter count below \<open>2 ^ 40\<close> and the five-stage lists of
  the arcs the comparisons with them and the truncated products come out as for the
  exact quotient.
\<close>

definition total_chapters :: "chapter_generator \<Rightarrow> py_error + nat" where
  "total_chapters g = py_len (dict_get (story_outline g) ''chapters'' (PList []))"

definition chapter_position :: "int \<Rightarrow> nat \<Rightarrow> py_error + rat" where
  "chapter_position chapter_num total_count =
     (if total_count = 0 then Inl ZeroDivisionError
      else Inr (of_int chapter_num / of_nat total_count))"

text \<open>\<open>min(int(chapter_position * len(stages)), len(stages) - 1)\<close>\<close>

definition stage_index :: "rat \<Rightarrow> nat \<Rightarrow> int" where
  "stage_index position n = min (py_int (position * of_nat n)) (int n - 1)"

definition emphasis :: "string \<Rightarrow> string \<Rightarrow> string \<Rightarrow> string" where
  "emphasis genre primary_genre secondary_genre =
     (if genre = primary_genre then ''primary''
      else if genre = secondary_genre then ''secondary''
      else ''background'')"

text \<open>
  The stage list \<open>_determine_genre_emphasis\<close> reads: it knows the keys of the generic,
  romance and mystery arcs only, and skips a genre with none of them.
\<close>

definition emphasis_stage_list :: "arc \<Rightarrow> arc_value option" where
  "emphasis_stage_list arc_data =
     (case map_of arc_data ''arc_stages'' of
        Some v \<Rightarrow> Some v
      | None \<Rightarrow>
          (case map_of arc_data ''relationship_stages'' of
             Some v \<Rightarrow> Some v
           | None \<Rightarrow> map_of arc_data ''mystery_elements''))"

text \<open>
  Every stage list that \<open>_determine_genre_emphasis\<close> reads is a list with at least one
  stage. The constructor builds lists of five stages, and \<open>_update_genre_arcs\<close> assigns
  to other keys only.
\<close>

definition stages_usable :: "(string \<times> arc) list \<Rightarrow> bool" where
  "stages_usable arcs =
     list_all (\<lambda>entry. case emphasis_stage_list (snd entry) of
                         None \<Rightarrow> True
                       | Some (AList stages) \<Rightarrow> stages \<noteq> []
                       | Some (AInt i) \<Rightarrow> False) arcs"

text \<open>\<open>stages[min(int(position * len(stages)), len(stages) - 1)]\<close>\<close>

definition stage_at :: "rat \<Rightarrow> arc_value \<Rightarrow> py_error + string" where
  "stage_at position stages =
     (case stages of
        AList xs \<Rightarrow> list_index xs (stage_index position (length xs))
      | AInt i \<Rightarrow> Inl TypeError)"

fun genre_stages_of ::
  "(string \<times> arc) list \<Rightarrow> rat \<Rightarrow> string \<Rightarrow> string \<Rightarrow> py_error + pydict" where
  "genre_stages_of [] position primary_genre secondary_genre = Inr []"
| "genre_stages_of ((genre, arc_data) # rest) position primary_genre secondary_genre =
     (case emphasis_stage_list arc_data of
        None \<Rightarrow> genre_stages_of rest position primary_genre secondary_genre
      | Some stages \<Rightarrow>
          (case stage_at position stages of
             Inl e \<Rightarrow> Inl e
           | Inr stage \<Rightarrow>
               (case genre_stages_of rest position primary_genre secondary_genre of
                  Inl e \<Rightarrow> Inl e
                | Inr genre_stages \<Rightarrow>
                    Inr ((genre,
                          PDict [(''current_stage'', PStr stage),
                                 (''emphasis'',
                                  PStr (emphasis genre primary_genre secondary_genre))])
                         # genre_stages))))"

definition focus_and_phase :: "rat \<Rightarrow> string \<times> string" where
  "focus_and_phase position =
     (if position \<le> 0.25 then (''establishing'', ''introduction'')
      else if position \<le> 0.75 then (''developing'', ''complication'')
      else (''resolving'', ''resolution''))"

definition determine_genre_emphasis :: "chapter_generator \<Rightarrow> int \<Rightarrow> py_error + pydict" where
  "determine_genre_emphasis g chapter_num =
     (case total_chapters g of
        Inl e \<Rightarrow> Inl e
      | Inr total_count \<Rightarrow>
          (case chapter_position chapter_num total_count of
             Inl e \<Rightarrow> Inl e
           | Inr position \<Rightarrow>
               (let focus = fst (focus_and_phase position);
                    phase = snd (focus_and_phase position)
                in if genres g = [] then Inl ZeroDivisionError
                   else
                     (let primary_index = (chapter_num - 1) mod int (length (genres g));
                          secondary_index = (primary_index + 1) mod int (length (genres g));
                          primary_genre = genres g ! nat primary_index;
                          secondary_genre = genres g ! nat secondary_index
                      in case genre_stages_of (genre_arcs g) position
                                primary_genre secondary_genre of
                           Inl e \<Rightarrow> Inl e
                         | Inr genre_stages \<Rightarrow>
                             Inr [(''chapter_position'',
                                   PStr (str_int chapter_num @ ''/'' @ str_nat total_count)),
                                  (''narrative_phase'', PStr phase),
                                  (''focus'', PStr focus),
                                  (''primary_genre'', PStr primary_genre),
                                  (''secondary_genre'', PStr secondary_genre),
                                  (''genre_stages'', PDict genre_stages),
                                  (''blend_recommendation'',
                                   PStr (''This chapter should primarily emphasize ''
                                         @ primary_genre
                                         @ '' elements while incorporating supporting elements from ''
                                         @ secondary_genre @ ''.''))]))))"

text \<open>\<open>_validate_chapter_fields\<close>: each of four fields becomes a list if it is a string,
  \<open>None\<close> or missing.\<close>

definition ensure_list :: "string \<Rightarrow> pydict \<Rightarrow> pydict" where
  "ensure_list k chapter =
     (case map_of chapter k of
        None \<Rightarrow> dict_set chapter k (PList [])
      | Some v \<Rightarrow>
          (case v of
             PStr t \<Rightarrow> dict_set chapter k (if t \<noteq> [] then PList [v] else PList [])
           | PNone \<Rightarrow> dict_set chapter k (PList [])
           | _ \<Rightarrow> chapter))"

definition validate_chapter_fields :: "pydict \<Rightarrow> pydict" where
  "validate_chapter_fields chapter =
     ensure_list ''genre_elements_used''
       (ensure_list ''cultural_elements_used''
          (ensure_list ''next_chapter_hooks''
             (ensure_list ''key_events'' chapter)))"

text \<open>
  \<open>_update_genre_arcs\<close> mutates the arcs and may raise part-way, so each step returns
  what it leaves and the exception, if any. \<open>arc_data[k].append(element)\<close> raises
  KeyError for a missing key and AttributeError for an integer.
\<close>

definition arc_append :: "string \<Rightarrow> string \<Rightarrow> arc \<Rightarrow> arc \<times> py_error option" where
  "arc_append k element arc_data =
     (case map_of arc_data k of
        None \<Rightarrow> (arc_data, Some KeyError)
      | Some (AList xs) \<Rightarrow> (dict_set arc_data k (AList (xs @ [element])), None)
      | Some (AInt i) \<Rightarrow> (arc_data, Some AttributeError))"

definition and_then ::
  "'s \<times> py_error option \<Rightarrow> ('s \<Rightarrow> 's \<times> py_error option) \<Rightarrow> 's \<times> py_error option" where
  "and_then r f = (case r of (s, None) \<Rightarrow> f s | (s, Some e) \<Rightarrow> (s, Some e))"

definition when_do :: "bool \<Rightarrow> ('s \<Rightarrow> 's \<times> py_error option) \<Rightarrow> 's \<Rightarrow> 's \<times> py_error option" where
  "when_do b f s = (if b then f s else (s, None))"

text \<open>The body of the inner loop: one element against one genre's arc.\<close>

definition track_element :: "string \<Rightarrow> string \<Rightarrow> arc \<Rightarrow> arc \<times> py_error option" where
  "track_element genre element arc_data =
     (let element_lower = lower element;
          genre_lower = lower genre;
          has = (\<lambda>w. py_in_str w element_lower)
      in and_then
           (if py_in_str ''romance'' genre_lower \<and> (has ''relationship'' \<or> has ''romantic'') then
              and_then (arc_append ''key_moments'' element arc_data)
                (when_do (has ''emotional'') (arc_append ''emotional_beats'' element))
            else if py_in_str ''mystery'' genre_lower
                    \<and> (has ''clue'' \<or> has ''reveal'' \<or> has ''mystery'') then
              (if has ''reveal'' \<or> has ''solution''
               then arc_append ''revelations'' element arc_data
               else arc_append ''open_questions'' element arc_data)
            else if py_in_str ''adventure'' genre_lower
                    \<and> (has ''journey'' \<or> has ''challenge'' \<or> has ''quest'') then
              and_then
                (when_do (has ''location'' \<or> has ''place'')
                   (arc_append ''locations'' element) arc_data)
                (when_do (has ''achieve'' \<or> has ''overcome'')
                   (arc_append ''achievements'' element))
            else (arc_data, None))
           (when_do (py_in_str genre_lower element_lower)
              (\<lambda>a. and_then (arc_append ''key_elements'' element a)
                     (arc_append ''genre_markers'' element))))"

fun track_in_arcs :: "(string \<times> arc) list \<Rightarrow> string \<Rightarrow> (string \<times> arc) list \<times> py_error option" where
  "track_in_arcs [] element = ([], None)"
| "track_in_arcs ((genre, arc_data) # rest) element =
     (case track_element genre element arc_data of
        (a, Some e) \<Rightarrow> ((genre, a) # rest, Some e)
      | (a, None) \<Rightarrow>
          (case track_in_arcs rest element of
             (rest', r) \<Rightarrow> ((genre, a) # rest', r)))"

fun track_elements ::
  "pyval list \<Rightarrow> (string \<times> arc) list \<Rightarrow> (string \<times> arc) list \<times> py_error option" where
  "track_elements [] arcs = (arcs, None)"
| "track_elements (element # rest) arcs =
     (case element of
        PStr t \<Rightarrow> and_then (track_in_arcs arcs t) (track_elements rest)
      | _ \<Rightarrow> (arcs, Some AttributeError))"

definition stage_list_keys :: "string list" where
  "stage_list_keys =
     [''arc_stages'', ''relationship_stages'', ''mystery_elements'', ''journey_stages'',
      ''historical_elements'', ''magical_elements'']"

text \<open>The value of the first of the six stage-list keys that the arc has.\<close>

definition first_stage_list :: "arc \<Rightarrow> arc_value option" where
  "first_stage_list arc_data =
     (case List.find (\<lambda>k. map_of arc_data k \<noteq> None) stage_list_keys of
        None \<Rightarrow> None
      | Some k \<Rightarrow> map_of arc_data k)"

definition set_current_stage :: "rat \<Rightarrow> arc \<Rightarrow> py_error + arc" where
  "set_current_stage position arc_data =
     (case first_stage_list arc_data of
        None \<Rightarrow> Inr arc_data
      | Some (AList stages) \<Rightarrow>
          Inr (dict_set arc_data ''current_stage''
                 (AInt (stage_index position (length stages))))
      | Some (AInt i) \<Rightarrow> Inl TypeError)"

fun set_current_stages :: "(string \<times> arc) list \<Rightarrow> rat \<Rightarrow> (string \<times> arc) list \<times> py_error option" where
  "set_current_stages [] position = ([], None)"
| "set_current_stages ((genre, arc_data) # rest) position =
     (case set_current_stage position arc_data of
        Inl e \<Rightarrow> ((genre, arc_data) # rest, Some e)
      | Inr a \<Rightarrow>
          (case set_current_stages rest position of
             (rest', r) \<Rightarrow> ((genre, a) # rest', r)))"

definition update_genre_arcs ::
  "chapter_generator \<Rightarrow> pydict \<Rightarrow> int \<Rightarrow> chapter_generator \<times> py_error option" where
  "update_genre_arcs g chapter chapter_num =
     (let genre_elements = dict_get chapter ''genre_elements_used'' (PList []);
          genre_elements =
            (case genre_elements of PStr t \<Rightarrow> PList [genre_elements] | _ \<Rightarrow> genre_elements)
      in case py_iter genre_elements of
           Inl e \<Rightarrow> (g, Some e)
         | Inr elements \<Rightarrow>
             (case track_elements elements (genre_arcs g) of
                (arcs, Some e) \<Rightarrow> (g\<lparr>genre_arcs := arcs\<rparr>, Some e)
              | (arcs, None) \<Rightarrow>
                  (let g1 = g\<lparr>genre_arcs := arcs\<rparr>
                   in case total_chapters g1 of
                        Inl e \<Rightarrow> (g1, Some e)
                      | Inr total_count \<Rightarrow>
                          (case chapter_position chapter_num total_count of
                             Inl e \<Rightarrow> (g1, Some e)
                           | Inr position \<Rightarrow>
                               (case set_current_stages arcs position of
                                  (arcs', r) \<Rightarrow> (g1\<lparr>genre_arcs := arcs'\<rparr>, r))))))"

text \<open>
  \<open>_get_genre_trajectory\<close>. \<open>arc_data.get("current_stage", 0) + 1\<close> is a TypeError
  when the entry is a list.
\<close>

definition trajectory_text :: "string \<Rightarrow> string \<Rightarrow> string" where
  "trajectory_text primary_genre next_stage =
     ''Next chapter should advance the '' @ primary_genre @ '' elements toward ''
     @ next_stage @ ''.''"

definition next_stage_of :: "arc \<Rightarrow> py_error + string" where
  "next_stage_of arc_data =
     (case first_stage_list arc_data of
        None \<Rightarrow> Inr ''development''
      | Some (AInt i) \<Rightarrow> Inl TypeError
      | Some (AList stages) \<Rightarrow>
          (case (case map_of arc_data ''current_stage'' of None \<Rightarrow> AInt 0 | Some v \<Rightarrow> v) of
             AList xs \<Rightarrow> Inl TypeError
           | AInt current_stage \<Rightarrow>
               list_index stages (min (current_stage + 1) (int (length stages) - 1))))"

definition get_genre_trajectory :: "chapter_generator \<Rightarrow> int \<Rightarrow> py_error + string" where
  "get_genre_trajectory g next_chapter_num =
     (case total_chapters g of
        Inl e \<Rightarrow> Inl e
      | Inr total_count \<Rightarrow>
          (if next_chapter_num > int total_count
           then Inr ''This is the conclusion - all genre elements should be resolved.''
           else if genres g = [] then Inl ZeroDivisionError
           else
             (let primary_index = (next_chapter_num - 1) mod int (length (genres g));
                  primary_genre = genres g ! nat primary_index
              in case map_of (genre_arcs g) primary_genre of
                   None \<Rightarrow> Inr (trajectory_text primary_genre ''development'')
                 | Some arc_data \<Rightarrow>
                     (case next_stage_of arc_data of
                        Inl e \<Rightarrow> Inl e
                      | Inr next_stage \<Rightarrow> Inr (trajectory_text primary_genre next_stage)))))"

text \<open>\<open>_get_default_genre_elements\<close>\<close>

definition default_phase :: "rat \<Rightarrow> string" where
  "default_phase position =
     (if position \<le> 0.25 then ''introduction''
      else if position \<le> 0.75 then ''development''
      else ''resolution'')"

definition default_element :: "string \<Rightarrow> string \<Rightarrow> string" where
  "default_element phase genre =
     (let genre_lower = lower genre
      in if py_in_str ''romance'' genre_lower then
           (if phase = ''introduction'' then ''Initial attraction between characters (Romance)''
            else if phase = ''development''
            then ''Relationship complications and growth (Romance)''
            else ''Romantic resolution or commitment (Romance)'')
         else if py_in_str ''mystery'' genre_lower then
           (if phase = ''introduction'' then ''Mystery setup and initial clues (Mystery)''
            else if phase = ''development''
            then ''Investigation progress and red herrings (Mystery)''
            else ''Mystery revelation and resolution (Mystery)'')
         else if py_in_str ''adventure'' genre_lower then
           (if phase = ''introduction''
            then ''Journey beginning and initial challenges (Adventure)''
            else if phase = ''development''
            then ''Overcoming obstacles and character growth (Adventure)''
            else ''Final challenge and triumphant return (Adventure)'')
         else genre @ '' elements appropriate for the '' @ phase @ '' phase'')"

definition get_default_genre_elements :: "chapter_generator \<Rightarrow> int \<Rightarrow> py_error + pyval" where
  "get_default_genre_elements g chapter_num =
     (case total_chapters g of
        Inl e \<Rightarrow> Inl e
      | Inr total_count \<Rightarrow>
          (case chapter_position chapter_num total_count of
             Inl e \<Rightarrow> Inl e
           | Inr position \<Rightarrow>
               Inr (PList (map (\<lambda>genre. PStr (default_element (default_phase position) genre))
                             (genres g)))))"

text \<open>
  \<open>generate_chapter\<close>. The reply of the language model is not a function of the
  program: \<open>chain\<close> stands for \<open>chain.invoke\<close> on the prompt built from the chapter
  number, the outline, the previous context, the genres and the guidance, and gives
  the text of the reply or the exception of the call; \<open>parse\<close> stands for
  \<open>parser.parse\<close> of the LangChain library, which returns a dictionary or raises.
  The statements before \<open>try\<close> raise to the caller; every exception of the block is
  caught and replaced by the fallback chapter, whose one fallible part is
  \<open>_get_default_genre_elements\<close>.
\<close>

type_synonym chain =
  "int \<Rightarrow> pydict \<Rightarrow> context_bundle \<Rightarrow> string \<Rightarrow> pydict \<Rightarrow> py_error + string"

text \<open>The last two statements of the block, on the hooks of the validated chapter.\<close>

definition add_genre_trajectory ::
  "chapter_generator \<Rightarrow> pydict \<Rightarrow> int \<Rightarrow> py_error + pydict" where
  "add_genre_trajectory g chapter chapter_num =
     (let chapter =
            (if map_of chapter ''next_chapter_hooks'' = None
                \<or> \<not> py_truthy (dict_get chapter ''next_chapter_hooks'' PNone)
             then dict_set chapter ''next_chapter_hooks'' (PList [])
             else chapter);
          hooks = dict_get chapter ''next_chapter_hooks'' (PList [])
      in case py_str_in ''genre_trajectory'' hooks of
           Inl e \<Rightarrow> Inl e
         | Inr True \<Rightarrow> Inr chapter
         | Inr False \<Rightarrow>
             (case hooks of
                PList xs \<Rightarrow>
                  (case get_genre_trajectory g (chapter_num + 1) of
                     Inl e \<Rightarrow> Inl e
                   | Inr trajectory \<Rightarrow>
                       Inr (dict_set chapter ''next_chapter_hooks''
                              (PList (xs @ [PStr trajectory]))))
              | _ \<Rightarrow> Inl AttributeError))"

text \<open>The \<open>try\<close> block: the generator it leaves, and the chapter or the exception.\<close>

definition try_chapter ::
  "chapter_generator \<Rightarrow> (string \<Rightarrow> py_error + pydict) \<Rightarrow> string \<Rightarrow> int
     \<Rightarrow> chapter_generator \<times> (py_error + pydict)" where
  "try_chapter g parse response_content chapter_num =
     (case parse response_content of
        Inl e \<Rightarrow> (g, Inl e)
      | Inr parsed \<Rightarrow>
          (let chapter = dict_set parsed ''chapter_number'' (PInt chapter_num);
               chapter = validate_chapter_fields chapter
           in case update_genre_arcs g chapter chapter_num of
                (g1, Some e) \<Rightarrow> (g1, Inl e)
              | (g1, None) \<Rightarrow> (g1, add_genre_trajectory g1 chapter chapter_num)))"

definition fallback_chapter :: "int \<Rightarrow> pydict \<Rightarrow> pyval \<Rightarrow> pydict" where
  "fallback_chapter chapter_num chapter_outline default_elements =
     [(''chapter_number'', PInt chapter_num),
      (''title'', dict_get chapter_outline ''title'' (PStr (''Chapter '' @ str_int chapter_num))),
      (''content'', PStr ''Error generating chapter content.''),
      (''summary'', dict_get chapter_outline ''summary'' (PStr ''Summary not available.'')),
      (''key_events'', PList []),
      (''character_development'', PStr ''No character development tracked.''),
      (''cultural_elements_used'', PList []),
      (''genre_elements_used'', default_elements),
      (''next_chapter_hooks'', PList [])]"

definition generate_chapter ::
  "chapter_generator \<Rightarrow> chain \<Rightarrow> (string \<Rightarrow> py_error + pydict) \<Rightarrow> int
     \<Rightarrow> chapter_generator \<times> (py_error + pydict)" where
  "generate_chapter g chain parse chapter_num =
     (case get_chapter_outline g chapter_num of
        Inl e \<Rightarrow> (g, Inl e)
      | Inr chapter_outline \<Rightarrow>
          (let previous_context = fst (get_context_for_chapter (context_manager g) chapter_num)
           in case determine_genre_emphasis g chapter_num of
                Inl e \<Rightarrow> (g, Inl e)
              | Inr genre_guidance \<Rightarrow>
                  (case chain chapter_num chapter_outline previous_context
                          (join_comma (genres g)) genre_guidance of
                     Inl e \<Rightarrow> (g, Inl e)
                   | Inr response_content \<Rightarrow>
                       (case try_chapter g parse response_content chapter_num of
                          (g1, Inr chapter) \<Rightarrow> (g1, Inr chapter)
                        | (g1, Inl e) \<Rightarrow>
                            (case get_default_genre_elements g1 chapter_num of
                               Inl e' \<Rightarrow> (g1, Inl e')
                             | Inr default_elements \<Rightarrow>
                                 (g1, Inr (fallback_chapter chapter_num chapter_outline
                                             default_elements)))))))"

text \<open>The eight fields of the chapter schema.\<close>

definition chapter_schema :: "string list" where
  "chapter_schema =
     [''title'', ''content'', ''summary'', ''key_events'', ''character_development'',
      ''cultural_elements_used'', ''genre_elements_used'', ''next_chapter_hooks'']"

section \<open>story/foundation.py\<close>

text \<open>
  The stub that \<open>_generate_chapter_outlines\<close> appends for index \<open>i\<close>, in the padding
  loop and in the handler alike.
\<close>

definition outline_stub :: "string \<Rightarrow> string \<Rightarrow> int \<Rightarrow> pyval" where
  "outline_stub genres_str pacing i =
     PDict [(''chapter_number'', PInt (i + 1)),
            (''title'', PStr (''Chapter '' @ str_int (i + 1))),
            (''summary'', PStr ''To be determined''),
            (''key_points'', PList []),
            (''characters_involved'', PList []),
            (''setting_details'', PStr []),
            (''cultural_elements'', PList []),
            (''genre_elements'', PStr (''Incorporating elements of '' @ genres_str)),
            (''narrative_progression'', PStr (''Moving forward with '' @ pacing @ '' pace''))]"

text \<open>
  \<open>for i in range(a, b): chapter_outlines.append(stub)\<close>: a loop that runs at least
  once needs \<open>append\<close>, which only a list has.
\<close>

definition append_stubs :: "pyval \<Rightarrow> int \<Rightarrow> int \<Rightarrow> string \<Rightarrow> string \<Rightarrow> py_error + pyval" where
  "append_stubs chapter_outlines a b genres_str pacing =
     (if b \<le> a then Inr chapter_outlines
      else (case chapter_outlines of
              PList xs \<Rightarrow> Inr (PList (xs @ map (outline_stub genres_str pacing) [a .. b - 1]))
            | _ \<Rightarrow> Inl AttributeError))"

text \<open>
  \<open>xs[:n]\<close>: a negative \<open>n\<close> counts from the end. A dictionary cannot be sliced (the
  exception is a TypeError or a KeyError by the version of Python; the handler does
  not look at it).
\<close>

definition slice_to :: "'a list \<Rightarrow> int \<Rightarrow> 'a list" where
  "slice_to xs n = (if 0 \<le> n then take (nat n) xs else take (nat (int (length xs) + n)) xs)"

fun py_slice_to :: "pyval \<Rightarrow> int \<Rightarrow> py_error + pyval" where
  "py_slice_to (PList xs) n = Inr (PList (slice_to xs n))"
| "py_slice_to (PStr s) n = Inr (PStr (slice_to s n))"
| "py_slice_to (PDict kvs) n = Inl TypeError"
| "py_slice_to PNone n = Inl TypeError"
| "py_slice_to (PBool b) n = Inl TypeError"
| "py_slice_to (PInt i) n = Inl TypeError"

text \<open>
  \<open>if k not in chapter: chapter[k] = v\<close>: the membership test works on strings,
  lists and dictionaries, the assignment on a dictionary only.
\<close>

definition set_default :: "string \<Rightarrow> pyval \<Rightarrow> pyval \<Rightarrow> py_error + pyval" where
  "set_default k v chapter =
     (case py_str_in k chapter of
        Inl e \<Rightarrow> Inl e
      | Inr True \<Rightarrow> Inr chapter
      | Inr False \<Rightarrow>
          (case chapter of
             PDict d \<Rightarrow> Inr (PDict (dict_set d k v))
           | _ \<Rightarrow> Inl TypeError))"

definition ensure_chapter :: "string \<Rightarrow> string \<Rightarrow> pyval \<Rightarrow> py_error + pyval" where
  "ensure_chapter genres_str pacing chapter =
     (case set_default ''genre_elements''
             (PStr (''Incorporating elements of '' @ genres_str)) chapter of
        Inl e \<Rightarrow> Inl e
      | Inr c \<Rightarrow>
          set_default ''narrative_progression''
            (PStr (''Moving forward with '' @ pacing @ '' pace'')) c)"

text \<open>
  The last loop of the block. The chapters it has completed stay completed when a
  later one raises: they are objects of the list.
\<close>

fun ensure_chapters :: "pyval list \<Rightarrow> string \<Rightarrow> string \<Rightarrow> pyval list \<times> py_error option" where
  "ensure_chapters [] genres_str pacing = ([], None)"
| "ensure_chapters (chapter # rest) genres_str pacing =
     (case ensure_chapter genres_str pacing chapter of
        Inl e \<Rightarrow> (chapter # rest, Some e)
      | Inr c \<Rightarrow>
          (case ensure_chapters rest genres_str pacing of
             (rest', r) \<Rightarrow> (c # rest', r)))"

text \<open>
  The loop over a value that is not a list runs over the characters of a string or
  the keys of a dictionary, which it cannot change.
\<close>

definition ensure_all :: "pyval \<Rightarrow> string \<Rightarrow> string \<Rightarrow> pyval \<times> py_error option" where
  "ensure_all chapter_outlines genres_str pacing =
     (case chapter_outlines of
        PList xs \<Rightarrow>
          (case ensure_chapters xs genres_str pacing of (xs', r) \<Rightarrow> (PList xs', r))
      | _ \<Rightarrow>
          (case py_iter chapter_outlines of
             Inl e \<Rightarrow> (chapter_outlines, Some e)
           | Inr items \<Rightarrow> (chapter_outlines, snd (ensure_chapters items genres_str pacing))))"

text \<open>
  The \<open>try\<close> block of \<open>_generate_chapter_outlines\<close>: the value the variable
  \<open>chapter_outlines\<close> holds when the block ends, and the exception that ended it, if
  any. The variable is the empty list until the parsed result is read.
\<close>

definition try_outlines ::
  "(string \<Rightarrow> py_error + pydict) \<Rightarrow> string \<Rightarrow> int \<Rightarrow> string \<Rightarrow> string
     \<Rightarrow> pyval \<times> py_error option" where
  "try_outlines parse response_content num_chapters genres_str pacing =
     (case parse response_content of
        Inl e \<Rightarrow> (PList [], Some e)
      | Inr result \<Rightarrow>
          (let chapter_outlines = dict_get result ''chapters'' (PList [])
           in case py_len chapter_outlines of
                Inl e \<Rightarrow> (chapter_outlines, Some e)
              | Inr n \<Rightarrow>
                  (case (if int n < num_chapters
                         then append_stubs chapter_outlines (int n) num_chapters genres_str pacing
                         else if int n > num_chapters
                         then py_slice_to chapter_outlines num_chapters
                         else Inr chapter_outlines) of
                     Inl e \<Rightarrow> (chapter_outlines, Some e)
                   | Inr sized \<Rightarrow> ensure_all sized genres_str pacing)))"

text \<open>
  \<open>_generate_chapter_outlines\<close>. \<open>response\<close> is the outcome of \<open>chain.invoke\<close> on the
  prompt built from the arguments (the text of the reply, or the exception, which
  reaches the caller); \<open>parse\<close> is the parser of the LangChain library. The handler
  appends \<open>num_chapters\<close> stubs to whatever \<open>chapter_outlines\<close> holds by then.
\<close>

definition generate_chapter_outlines ::
  "(py_error + string) \<Rightarrow> (string \<Rightarrow> py_error + pydict) \<Rightarrow> string \<Rightarrow> int \<Rightarrow> string list
     \<Rightarrow> py_error + pyval" where
  "generate_chapter_outlines response parse narrative_pacing' num_chapters genres' =
     (let genres_str = join_comma genres'
      in case response of
           Inl e \<Rightarrow> Inl e
         | Inr response_content \<Rightarrow>
             (case try_outlines parse response_content num_chapters genres_str
                     narrative_pacing' of
                (chapter_outlines, None) \<Rightarrow> Inr chapter_outlines
              | (chapter_outlines, Some e) \<Rightarrow>
                  append_stubs chapter_outlines 0 num_chapters genres_str narrative_pacing'))"

section \<open>Concrete inputs\<close>

text \<open>A store holding points of chapters 1 to 3 and the summaries of chapters 1 and 2.\<close>

definition example_points :: "context_point list" where
  "example_points =
     [\<lparr>content = PStr ''met the guide'', pchapter = 1, importance = ''medium'',
        ptype = ''event'', weight = 2\<rparr>,
      \<lparr>content = PStr ''grows bolder'', pchapter = 1, importance = ''high'',
        ptype = ''character_development'', weight = 3\<rparr>,
      \<lparr>content = PStr ''critical clue found'', pchapter = 2, importance = ''high'',
        ptype = ''event'', weight = 3\<rparr>,
      \<lparr>content = PStr ''who sent the letter'', pchapter = 2, importance = ''high'',
        ptype = ''hook'', weight = 3\<rparr>,
      \<lparr>content = PStr ''left the village'', pchapter = 2, importance = ''medium'',
        ptype = ''event'', weight = 2\<rparr>,
      \<lparr>content = PStr ''the storm'', pchapter = 3, importance = ''medium'',
        ptype = ''event'', weight = 2\<rparr>]"

definition example_store :: store where
  "example_store =
     \<lparr>context_points = example_points,
      chapter_summaries =
        [1 \<mapsto> PDict [(''title'', PStr ''One''), (''summary'', PStr ''s1''), (''key_events'', PList [])],
         2 \<mapsto> PDict [(''title'', PStr ''Two''), (''summary'', PStr ''s2''), (''key_events'', PList [])]]\<rparr>"

text \<open>Chapter records with 16 and with 46 one-letter key events.\<close>

definition sixteen_events :: pydict where
  "sixteen_events = [(''key_events'', PList (map (\<lambda>c. PStr [c]) ''abcdefghijklmnop''))]"

definition forty_six_events :: pydict where
  "forty_six_events =
     [(''title'', PStr ''Long''),
      (''key_events'',
       PList (map (\<lambda>c. PStr [c]) ''abcdefghijklmnopqrstuvwxyzABCDEFGHIJKLMNOPQRST''))]"

definition letter_chapter :: pydict where
  "letter_chapter =
     [(''title'', PStr ''The Letter''),
      (''summary'', PStr ''A letter arrives.''),
      (''key_events'', PStr ''Hero found the letter''),
      (''character_development'', PStr ''Hero doubts''),
      (''next_chapter_hooks'', PList [PStr ''Who wrote it?''])]"

text \<open>
  A generator for the genre Mystery over an outline of four chapters, a chain whose
  reply is the text \<open>not json\<close>, and a parser that rejects that text.
\<close>

definition four_chapters :: pyval where
  "four_chapters =
     PList [PDict [(''chapter_number'', PInt 1), (''title'', PStr ''The Letter''),
                   (''summary'', PStr ''A letter arrives.'')],
            PDict [(''chapter_number'', PInt 2), (''title'', PStr ''The Village''),
                   (''summary'', PStr ''Nobody admits to writing it.'')],
            PDict [(''chapter_number'', PInt 3), (''title'', PStr ''The Guide'')],
            PDict [(''chapter_number'', PInt 4), (''title'', PStr ''The Storm'')]]"

definition mystery_generator :: chapter_generator where
  "mystery_generator =
     \<lparr>story_outline = [(''title'', PStr ''Monsoon''), (''chapters'', four_chapters)],
      context_manager = init_store,
      genres = [''Mystery''],
      genre_arcs = initialize_genre_arcs [''Mystery'']\<rparr>"

definition not_json_chain :: chain where
  "not_json_chain chapter_num chapter_outline previous_context genres_str genre_guidance =
     Inr ''not json''"

definition rejecting_parse :: "string \<Rightarrow> py_error + pydict" where
  "rejecting_parse response_content =
     (if response_content = ''not json'' then Inl OutputParserException
      else Inr [(''title'', PStr response_content)])"

text \<open>The entry of the guidance under a key, when \<open>_determine_genre_emphasis\<close> returned.\<close>

definition guidance_entry :: "string \<Rightarrow> py_error + pydict \<Rightarrow> pyval option" where
  "guidance_entry k r = (case r of Inl e \<Rightarrow> None | Inr guidance \<Rightarrow> map_of guidance k)"

text \<open>A parser whose result lists one chapter, given as a string.\<close>

definition one_title_parse :: "string \<Rightarrow> py_error + pydict" where
  "one_title_parse response_content = Inr [(''chapters'', PList [PStr ''The Letter''])]"

text \<open>The length of the list that \<open>_generate_chapter_outlines\<close> returned.\<close>

definition returned_count :: "py_error + pyval \<Rightarrow> nat option" where
  "returned_count r =
     (case r of Inr (PList xs) \<Rightarrow> Some (length xs) | _ \<Rightarrow> None)"

text \<open>
  A chapter record whose key events are 50 one-letter strings followed by a number, as a
  parsed reply can hold.
\<close>

definition fifty_events_then_number :: pydict where
  "fifty_events_then_number =
     [(''title'', PStr ''Crowded''),
      (''key_events'',
       PList (map (\<lambda>c. PStr [c]) ''abcdefghijklmnopqrstuvwxyzABCDEFGHIJKLMNOPQRSTUVWX''
              @ [PInt 5]))]"

text \<open>
  The Mystery generator after \<open>_update_genre_arcs\<close> has run for a second chapter that
  names a clue: the state in which the guidance for chapter 3 is computed.
\<close>

definition clue_chapter :: pydict where
  "clue_chapter =
     [(''title'', PStr ''The Village''),
      (''genre_elements_used'', PList [PStr ''A clue in the margin''])]"

definition mystery_generator_later :: chapter_generator where
  "mystery_generator_later = fst (update_genre_arcs mystery_generator clue_chapter 2)"

section \<open>Properties of the sort\<close>

lemma mset_sort_points: "mset (sort_points ps) = mset ps"
  by (simp add: sort_points_def)

lemma set_sort_points: "set (sort_points ps) = set ps"
  by (simp add: sort_points_def)

lemma length_sort_points: "length (sort_points ps) = length ps"
  by (simp add: sort_points_def)

lemma sorted_sort_points: "sorted_wrt ranks_before (sort_points ps)"
proof -
  have "sorted (map sort_key_of (sort_key sort_key_of (rev ps)))"
    by simp
  then have "sorted_wrt (\<lambda>p q. sort_key_of p \<le> sort_key_of q) (sort_key sort_key_of (rev ps))"
    by (simp add: sorted_map)
  then have "sorted_wrt (\<lambda>p q. sort_key_of q \<le> sort_key_of p) (sort_points ps)"
    by (simp add: sort_points_def sorted_wrt_rev)
  moreover have "(\<lambda>p q. sort_key_of q \<le> sort_key_of p) = ranks_before"
    by (auto simp: fun_eq_iff ranks_before_def sort_key_of_def)
  ultimately show ?thesis by simp
qed

lemma stable_sort_points:
  "filter (\<lambda>p. sort_key_of p = k) (sort_points ps) = filter (\<lambda>p. sort_key_of p = k) ps"
proof -
  have "filter (\<lambda>p. sort_key_of p = k) (sort_points ps) =
        rev (filter (\<lambda>p. sort_key_of p = k) (sort_key sort_key_of (rev ps)))"
    by (simp add: sort_points_def rev_filter)
  also have "\<dots> = rev (filter (\<lambda>p. sort_key_of p = k) (rev ps))"
    by (simp only: sort_key_stable)
  also have "\<dots> = filter (\<lambda>p. sort_key_of p = k) ps"
    by (simp add: rev_filter)
  finally show ?thesis .
qed

section \<open>Properties of the string helpers and of the store updates\<close>

lemma starts_with_iff: "starts_with p s \<longleftrightarrow> (\<exists>b. s = p @ b)"
  by (induction p s rule: starts_with.induct) auto

lemma py_in_str_iff: "py_in_str p s \<longleftrightarrow> (\<exists>a b. s = a @ p @ b)"
proof (induction s)
  case Nil
  then show ?case by auto
next
  case (Cons c cs)
  show ?case
  proof
    assume "py_in_str p (c # cs)"
    then consider "starts_with p (c # cs)" | "py_in_str p cs" by auto
    then show "\<exists>a b. c # cs = a @ p @ b"
    proof cases
      case 1
      then obtain b where "c # cs = p @ b" by (auto simp: starts_with_iff)
      then have "c # cs = [] @ p @ b" by simp
      then show ?thesis by blast
    next
      case 2
      then obtain a b where "cs = a @ p @ b" using Cons.IH by auto
      then have "c # cs = (c # a) @ p @ b" by simp
      then show ?thesis by blast
    qed
  next
    assume "\<exists>a b. c # cs = a @ p @ b"
    then obtain a b where ab: "c # cs = a @ p @ b" by blast
    show "py_in_str p (c # cs)"
    proof (cases a)
      case Nil
      with ab have "starts_with p (c # cs)" by (auto simp: starts_with_iff)
      then show ?thesis by simp
    next
      case (Cons x a')
      with ab have "cs = a' @ p @ b" by simp
      then have "py_in_str p cs" using Cons.IH by blast
      then show ?thesis by simp
    qed
  qed
qed

lemma spec_event_importance_eq: "spec_event_importance t = event_importance t"
  by (simp add: spec_event_importance_def event_importance_def py_in_str_iff)

lemma weight_high: "weight_map (lower ''high'') = Some 3"
  by (simp add: weight_map_def lower_def lower_char_def)

lemma weight_medium: "weight_map (lower ''medium'') = Some 2"
  by (simp add: weight_map_def lower_def lower_char_def)

lemma add_context_point_points:
  "context_points (add_context_point x i imp t s) =
     context_points s @ [\<lparr>content = x, pchapter = i, importance = imp, ptype = t,
        weight = (case weight_map (lower imp) of Some v \<Rightarrow> v | None \<Rightarrow> 2)\<rparr>]"
  by (simp add: add_context_point_def)

lemma add_context_point_summaries:
  "chapter_summaries (add_context_point x i imp t s) = chapter_summaries s"
  by (simp add: add_context_point_def)

lemma event_point_eq:
  "event_point i t = \<lparr>content = PStr t, pchapter = i, importance = event_importance t,
     ptype = ''event'', weight = (case weight_map (lower (event_importance t)) of Some v \<Rightarrow> v | None \<Rightarrow> 2)\<rparr>"
  by (simp add: event_point_def spec_event_importance_eq event_importance_def weight_high weight_medium)

lemma add_events_strings:
  "add_events (map PStr ts) i s =
     (s\<lparr>context_points := context_points s @ map (event_point i) ts\<rparr>, None)"
proof (induction ts arbitrary: s)
  case Nil
  then show ?case by simp
next
  case (Cons t ts)
  show ?case
    by (simp add: Cons.IH add_context_point_def event_point_eq)
qed

lemma add_events_general:
  "\<exists>ps. context_points (fst (add_events evs i s)) = context_points s @ ps \<and>
        (\<forall>p \<in> set ps. ptype p = ''event'' \<and> pchapter p = i) \<and>
        chapter_summaries (fst (add_events evs i s)) = chapter_summaries s"
proof (induction evs arbitrary: s)
  case Nil
  then show ?case by simp
next
  case (Cons e evs)
  show ?case
  proof (cases e)
    case (PStr t)
    let ?s1 = "add_context_point e i (event_importance t) ''event'' s"
    from Cons.IH [of ?s1] obtain ps where
      ps: "context_points (fst (add_events evs i ?s1)) = context_points ?s1 @ ps"
        "\<forall>p \<in> set ps. ptype p = ''event'' \<and> pchapter p = i"
        "chapter_summaries (fst (add_events evs i ?s1)) = chapter_summaries ?s1"
      by blast
    show ?thesis
      using ps PStr
      by (auto simp: add_context_point_points add_context_point_summaries
          intro!: exI [of _ "_ # ps"])
  qed simp_all
qed

lemma add_high_points_points:
  "context_points (add_high_points items i t s) =
     context_points s @ map (\<lambda>item. \<lparr>content = item, pchapter = i, importance = ''high'',
        ptype = t, weight = 3\<rparr>) items"
  unfolding add_high_points_def
  by (induction items arbitrary: s) (simp_all add: add_context_point_points weight_high)

lemma add_high_points_summaries:
  "chapter_summaries (add_high_points items i t s) = chapter_summaries s"
  unfolding add_high_points_def
  by (induction items arbitrary: s) (simp_all add: add_context_point_summaries)

lemma add_character_dev_points:
  "\<exists>ps. context_points (add_character_dev v i s) = context_points s @ ps \<and>
        (\<forall>p \<in> set ps. ptype p = ''character_development'' \<and> pchapter p = i)"
  by (cases v) (auto simp: add_character_dev_def add_context_point_points add_high_points_points)

lemma add_character_dev_summaries:
  "chapter_summaries (add_character_dev v i s) = chapter_summaries s"
  by (cases v) (auto simp: add_character_dev_def add_context_point_summaries add_high_points_summaries)

lemma update_before_prune_summaries:
  "chapter_summaries (fst (update_before_prune s c i)) =
     (chapter_summaries s)(i \<mapsto> chapter_summary c i)"
proof -
  let ?s1 = "s\<lparr>chapter_summaries := (chapter_summaries s)(i \<mapsto> chapter_summary c i)\<rparr>"
  have a: "chapter_summaries (fst (add_events evs i ?s1)) = chapter_summaries ?s1" for evs
    using add_events_general [of evs i ?s1] by blast
  show ?thesis
    unfolding update_before_prune_def Let_def
    by (auto split: sum.splits prod.splits option.splits
        simp: add_character_dev_summaries add_high_points_summaries
        dest: arg_cong [where f = "\<lambda>x. chapter_summaries (fst x)"] simp: a)
qed

lemma update_before_prune_points:
  "\<exists>ps. context_points (fst (update_before_prune s c i)) = context_points s @ ps \<and>
        (\<forall>p \<in> set ps. pchapter p = i)"
proof -
  let ?s1 = "s\<lparr>chapter_summaries := (chapter_summaries s)(i \<mapsto> chapter_summary c i)\<rparr>"
  have s1: "context_points ?s1 = context_points s" by simp
  show ?thesis
  proof (cases "py_iter (str_to_list (dict_get c ''key_events'' (PList [])))")
    case (Inl e)
    then show ?thesis by (simp add: update_before_prune_def)
  next
    case (Inr events)
    obtain s2 r where ae: "add_events events i ?s1 = (s2, r)" by (cases "add_events events i ?s1")
    from add_events_general [of events i ?s1] ae obtain ps where
      ps: "context_points s2 = context_points s @ ps" "\<forall>p \<in> set ps. pchapter p = i"
      by auto
    show ?thesis
    proof (cases r)
      case (Some e)
      with Inr ae ps show ?thesis by (simp add: update_before_prune_def)
    next
      case None
      let ?s3 = "add_character_dev (dict_get c ''character_development'' (PStr [])) i s2"
      from add_character_dev_points [of "dict_get c ''character_development'' (PStr [])" i s2]
      obtain qs where qs: "context_points ?s3 = context_points s2 @ qs" "\<forall>p \<in> set qs. pchapter p = i"
        by blast
      show ?thesis
      proof (cases "py_iter (str_to_list (dict_get c ''next_chapter_hooks'' (PList [])))")
        case (Inl e)
        with Inr ae None ps qs show ?thesis
          by (auto simp: update_before_prune_def Let_def intro!: exI [of _ "ps @ qs"])
      next
        case (Inr hooks)
        with \<open>py_iter (str_to_list (dict_get c ''key_events'' (PList []))) = Inr events\<close>
          ae None ps qs show ?thesis
          by (auto simp: update_before_prune_def Let_def add_high_points_points
              intro!: exI [of _ "ps @ qs @ _"])
      qed
    qed
  qed
qed

lemma context_points_eq_added:
  "context_points (fst (update_before_prune s c i)) = context_points s @ points_added s c i"
  using update_before_prune_points [of s c i] by (auto simp: points_added_def)

lemma points_added_chapter: "p \<in> set (points_added s c i) \<Longrightarrow> pchapter p = i"
  using update_before_prune_points [of s c i] by (auto simp: points_added_def)

lemma update_with_chapter_returns:
  "update_with_chapter s c i = (s', None) \<Longrightarrow>
     s' = prune_context (fst (update_before_prune s c i)) \<and> snd (update_before_prune s c i) = None"
  by (auto simp: update_with_chapter_def split: prod.splits option.splits)

lemma prune_context_summaries: "chapter_summaries (prune_context s) = chapter_summaries s"
  by (simp add: prune_context_def)

lemma prune_context_points:
  "context_points (prune_context s) =
     (if length (context_points s) > 3 * MAX_CONTEXT_ITEMS
      then take (2 * MAX_CONTEXT_ITEMS) (sort_points (context_points s))
      else context_points s)"
  by (simp add: prune_context_def mult.commute)

lemma set_map_filter: "set (List.map_filter f xs) = {y. \<exists>x \<in> set xs. f x = Some y}"
  by (force simp: List.map_filter_def image_iff)

lemma bundle_not_first:
  "n \<noteq> 1 \<Longrightarrow> fst (get_context_for_chapter s n) =
     \<lparr>previous_chapters = List.map_filter (chapter_summaries s) [1 .. n - 1],
      key_events = take MAX_CONTEXT_ITEMS (contents_of_type ''event'' (relevant_points s n)),
      character_developments =
        take MAX_CONTEXT_ITEMS (contents_of_type ''character_development'' (relevant_points s n)),
      open_hooks = take MAX_CONTEXT_ITEMS (contents_of_type ''hook'' (relevant_points s n))\<rparr>"
  by (simp add: get_context_for_chapter_def Let_def)

lemma set_contents_of_type:
  "set (contents_of_type t (relevant_points s n)) =
     content ` {p \<in> set (context_points s). pchapter p < n \<and> ptype p = t}"
  by (auto simp: contents_of_type_def relevant_points_def set_sort_points)

lemma length_contents_of_type:
  "length (contents_of_type t (relevant_points s n)) =
     length (filter (\<lambda>p. pchapter p < n \<and> ptype p = t) (context_points s))"
proof -
  have "length (filter (\<lambda>p. ptype p = t) (sort_points (filter (\<lambda>p. pchapter p < n) (context_points s)))) =
        size (filter_mset (\<lambda>p. ptype p = t) (mset (sort_points (filter (\<lambda>p. pchapter p < n) (context_points s)))))"
    by (metis mset_filter size_mset)
  also have "\<dots> = size (filter_mset (\<lambda>p. ptype p = t) (mset (filter (\<lambda>p. pchapter p < n) (context_points s))))"
    by (simp only: mset_sort_points)
  also have "\<dots> = length (filter (\<lambda>p. ptype p = t) (filter (\<lambda>p. pchapter p < n) (context_points s)))"
    by (metis mset_filter size_mset)
  finally show ?thesis
    by (simp add: contents_of_type_def relevant_points_def)
qed

lemma take_contents_subset:
  "set (take k (contents_of_type t (relevant_points s n))) \<subseteq>
     content ` {p \<in> set (context_points s). pchapter p < n \<and> ptype p = t}"
  using set_take_subset [of k "contents_of_type t (relevant_points s n)"]
  by (simp only: set_contents_of_type)

lemma take_contents_all:
  "length (filter (\<lambda>p. pchapter p < n \<and> ptype p = t) (context_points s)) \<le> k \<Longrightarrow>
   set (take k (contents_of_type t (relevant_points s n))) =
     content ` {p \<in> set (context_points s). pchapter p < n \<and> ptype p = t}"
  by (simp add: length_contents_of_type set_contents_of_type)

lemma ptype_event_point: "ptype (event_point i t) = ''event''"
  by (simp add: event_point_def)

lemma filter_events_strings:
  assumes "\<forall>p \<in> set rest. ptype p \<noteq> ''event''"
  shows "filter (\<lambda>p. ptype p = ''event'') (map (event_point i) ts @ rest) = map (event_point i) ts"
proof -
  have "filter (\<lambda>p. ptype p = ''event'') rest = []"
    using assms by (simp add: filter_empty_conv)
  moreover have "filter (\<lambda>p. ptype p = ''event'') (map (event_point i) ts) = map (event_point i) ts"
    by (simp add: filter_id_conv ptype_event_point)
  ultimately show ?thesis by simp
qed

lemma points_added_strings:
  assumes "py_iter (str_to_list (dict_get c ''key_events'' (PList []))) = Inr (map PStr ts)"
  shows "\<exists>rest. points_added s c i = map (event_point i) ts @ rest \<and>
                (\<forall>p \<in> set rest. ptype p \<noteq> ''event'')"
proof -
  let ?s1 = "s\<lparr>chapter_summaries := (chapter_summaries s)(i \<mapsto> chapter_summary c i)\<rparr>"
  let ?s2 = "?s1\<lparr>context_points := context_points ?s1 @ map (event_point i) ts\<rparr>"
  let ?s3 = "add_character_dev (dict_get c ''character_development'' (PStr [])) i ?s2"
  have ae: "add_events (map PStr ts) i ?s1 = (?s2, None)"
    by (rule add_events_strings)
  from add_character_dev_points [of "dict_get c ''character_development'' (PStr [])" i ?s2]
  obtain qs where qs: "context_points ?s3 = context_points ?s2 @ qs"
    "\<forall>p \<in> set qs. ptype p = ''character_development'' \<and> pchapter p = i"
    by blast
  have qs_ne: "\<forall>p \<in> set qs. ptype p \<noteq> ''event''"
    using qs(2) by auto
  show ?thesis
  proof (cases "py_iter (str_to_list (dict_get c ''next_chapter_hooks'' (PList [])))")
    case (Inl e)
    have "update_before_prune s c i = (?s3, Some e)"
      using assms ae Inl by (simp add: update_before_prune_def Let_def)
    then have "points_added s c i = map (event_point i) ts @ qs"
      using qs(1) by (simp add: points_added_def)
    with qs_ne show ?thesis by blast
  next
    case (Inr hooks)
    let ?hs = "map (\<lambda>item. \<lparr>content = item, pchapter = i, importance = ''high'',
        ptype = ''hook'', weight = 3\<rparr>) hooks"
    have "update_before_prune s c i = (add_high_points hooks i ''hook'' ?s3, None)"
      using assms ae Inr by (simp add: update_before_prune_def Let_def)
    then have "points_added s c i = map (event_point i) ts @ (qs @ ?hs)"
      using qs(1) by (simp add: points_added_def add_high_points_points)
    moreover have "\<forall>p \<in> set (qs @ ?hs). ptype p \<noteq> ''event''"
      using qs_ne by auto
    ultimately show ?thesis by blast
  qed
qed

lemma update_with_chapter_unpruned:
  "length (context_points (fst (update_before_prune s c i))) \<le> 3 * MAX_CONTEXT_ITEMS \<Longrightarrow>
   context_points (fst (update_with_chapter s c i)) = context_points s @ points_added s c i"
proof -
  assume le: "length (context_points (fst (update_before_prune s c i))) \<le> 3 * MAX_CONTEXT_ITEMS"
  obtain s1 r where u: "update_before_prune s c i = (s1, r)"
    by (cases "update_before_prune s c i")
  have s1: "context_points s1 = context_points s @ points_added s c i"
    using context_points_eq_added [of s c i] u by simp
  have "context_points (prune_context s1) = context_points s1"
    using le u by (simp add: prune_context_points)
  then show ?thesis
    using u s1 by (cases r) (simp_all add: update_with_chapter_def)
qed

lemmas eval_update =
  update_with_chapter_def update_before_prune_def dict_get_def str_to_list_def init_store_def
  add_character_dev_def add_high_points_def add_context_point_def Let_def prune_context_def
  event_importance_def lower_def lower_char_def weight_map_def MAX_CONTEXT_ITEMS_def
  chapter_summary_def

lemma letter_chapter_update:
  "update_with_chapter init_store letter_chapter 1 =
     (\<lparr>context_points =
         [\<lparr>content = PStr ''Hero found the letter'', pchapter = 1, importance = ''medium'',
            ptype = ''event'', weight = 2\<rparr>,
          \<lparr>content = PStr ''Hero doubts'', pchapter = 1, importance = ''high'',
            ptype = ''character_development'', weight = 3\<rparr>,
          \<lparr>content = PStr ''Who wrote it?'', pchapter = 1, importance = ''high'',
            ptype = ''hook'', weight = 3\<rparr>],
       chapter_summaries =
         [1 \<mapsto> PDict [(''title'', PStr ''The Letter''), (''summary'', PStr ''A letter arrives.''),
                       (''key_events'', PStr ''Hero found the letter'')]]\<rparr>, None)"
  by (simp add: eval_update letter_chapter_def)

lemma letter_chapter_context:
  "fst (get_context_for_chapter (fst (update_with_chapter init_store letter_chapter 1)) 2) =
     \<lparr>previous_chapters =
        [PDict [(''title'', PStr ''The Letter''), (''summary'', PStr ''A letter arrives.''),
                (''key_events'', PStr ''Hero found the letter'')]],
      key_events = [PStr ''Hero found the letter''],
      character_developments = [PStr ''Hero doubts''],
      open_hooks = [PStr ''Who wrote it?'']\<rparr>"
  by (simp add: letter_chapter_update get_context_for_chapter_def relevant_points_def
      contents_of_type_def sort_points_def sort_key_of_def List.map_filter_def
      MAX_CONTEXT_ITEMS_def)

lemma update_with_chapter_summaries:
  "chapter_summaries (fst (update_with_chapter s c i)) =
     (chapter_summaries s)(i \<mapsto> chapter_summary c i)"
proof -
  obtain s1 r where u: "update_before_prune s c i = (s1, r)"
    by (cases "update_before_prune s c i")
  have "chapter_summaries s1 = (chapter_summaries s)(i \<mapsto> chapter_summary c i)"
    using update_before_prune_summaries [of s c i] u by simp
  then show ?thesis
    by (cases r) (simp_all add: update_with_chapter_def u prune_context_summaries)
qed

lemma letter_chapter_before_prune:
  "update_before_prune init_store letter_chapter 1 =
     (fst (update_with_chapter init_store letter_chapter 1), None)"
  by (simp add: eval_update letter_chapter_def)

lemma letter_chapter_added:
  "points_added init_store letter_chapter 1 =
     [\<lparr>content = PStr ''Hero found the letter'', pchapter = 1, importance = ''medium'',
        ptype = ''event'', weight = 2\<rparr>,
      \<lparr>content = PStr ''Hero doubts'', pchapter = 1, importance = ''high'',
        ptype = ''character_development'', weight = 3\<rparr>,
      \<lparr>content = PStr ''Who wrote it?'', pchapter = 1, importance = ''high'',
        ptype = ''hook'', weight = 3\<rparr>]"
proof -
  have e: "context_points init_store = []"
    by (simp add: init_store_def)
  show ?thesis
    by (simp add: points_added_def letter_chapter_before_prune letter_chapter_update e)
qed

section \<open>Evaluating the genre guidance\<close>

lemma mystery_arcs: "initialize_genre_arcs [''Mystery''] =
  [(''Mystery'', [(''mystery_elements'',
               AList [''Initial problem'', ''Clues'', ''Red herrings'', ''Revelations'', ''Solution'']),
            (''current_element'', AInt 0),
            (''revelations'', AList []),
            (''open_questions'', AList [])])]"
  by (simp add: initialize_genre_arcs_def initial_arc_def dict_set_def lower_def lower_char_def)

lemma phases:
  "focus_and_phase (1 / 4) = (''establishing'', ''introduction'')"
  "focus_and_phase (1 / 2) = (''developing'', ''complication'')"
  "focus_and_phase (3 / 4) = (''developing'', ''complication'')"
  "focus_and_phase 1 = (''resolving'', ''resolution'')"
  by (simp_all add: focus_and_phase_def)

lemma floor_rat_numeral:
  "\<lfloor>numeral a / numeral b :: rat\<rfloor> = numeral a div numeral b"
  using floor_divide_of_int_eq [of "numeral a" "numeral b", where ?'a = rat] by simp

lemma stage_at_five:
  "stage_at (1 / 4) (AList [a, b, c, d, e]) = Inr b"
  "stage_at (1 / 2) (AList [a, b, c, d, e]) = Inr c"
  "stage_at (3 / 4) (AList [a, b, c, d, e]) = Inr d"
  "stage_at 1 (AList [a, b, c, d, e]) = Inr e"
  by (simp_all add: stage_at_def stage_index_def py_int_def list_index_def floor_rat_numeral)

lemmas eval_emphasis = determine_genre_emphasis_def chapter_position_def mystery_arcs phases
      stage_at_five str_int_def str_nat.simps digit_char_def emphasis_stage_list_def
      emphasis_def Let_def

lemma mystery_generator_total: "total_chapters mystery_generator = Inr 4"
  by (simp add: total_chapters_def mystery_generator_def dict_get_def four_chapters_def)

lemma mystery_generator_genres: "genres mystery_generator = [''Mystery'']"
  by (simp add: mystery_generator_def)

lemma mystery_generator_arcs:
  "genre_arcs mystery_generator = initialize_genre_arcs (genres mystery_generator)"
  by (simp add: mystery_generator_def)

lemma mystery_outline_2:
  "get_chapter_outline mystery_generator 2 =
     Inr [(''chapter_number'', PInt 2), (''title'', PStr ''The Village''),
          (''summary'', PStr ''Nobody admits to writing it.'')]"
  by (simp add: get_chapter_outline_def mystery_generator_def dict_get_def four_chapters_def)

lemma mystery_guidance_2:
  "determine_genre_emphasis mystery_generator 2 =
     Inr [(''chapter_position'', PStr ''2/4''),
          (''narrative_phase'', PStr ''complication''),
          (''focus'', PStr ''developing''),
          (''primary_genre'', PStr ''Mystery''),
          (''secondary_genre'', PStr ''Mystery''),
          (''genre_stages'',
           PDict [(''Mystery'', PDict [(''current_stage'', PStr ''Red herrings''),
                                      (''emphasis'', PStr ''primary'')])]),
          (''blend_recommendation'',
           PStr ''This chapter should primarily emphasize Mystery elements while incorporating supporting elements from Mystery.'')]"
  using mystery_generator_arcs
  by (simp add: mystery_generator_total mystery_generator_genres eval_emphasis)

lemma mystery_defaults_2:
  "get_default_genre_elements mystery_generator 2 =
     Inr (PList [PStr ''Investigation progress and red herrings (Mystery)''])"
  by (simp add: get_default_genre_elements_def mystery_generator_total mystery_generator_genres
      chapter_position_def default_phase_def default_element_def lower_def lower_char_def)

lemma mystery_initial_guidance:
  assumes "total_chapters g = Inr 4" and "genres g = [''Mystery'']"
    and "genre_arcs g = initialize_genre_arcs (genres g)"
  shows "determine_genre_emphasis g 1 =
     Inr [(''chapter_position'', PStr ''1/4''),
          (''narrative_phase'', PStr ''introduction''),
          (''focus'', PStr ''establishing''),
          (''primary_genre'', PStr ''Mystery''),
          (''secondary_genre'', PStr ''Mystery''),
          (''genre_stages'',
           PDict [(''Mystery'', PDict [(''current_stage'', PStr ''Clues''),
                                      (''emphasis'', PStr ''primary'')])]),
          (''blend_recommendation'',
           PStr ''This chapter should primarily emphasize Mystery elements while incorporating supporting elements from Mystery.'')] \<and>
     determine_genre_emphasis g 3 =
     Inr [(''chapter_position'', PStr ''3/4''),
          (''narrative_phase'', PStr ''complication''),
          (''focus'', PStr ''developing''),
          (''primary_genre'', PStr ''Mystery''),
          (''secondary_genre'', PStr ''Mystery''),
          (''genre_stages'',
           PDict [(''Mystery'', PDict [(''current_stage'', PStr ''Revelations''),
                                      (''emphasis'', PStr ''primary'')])]),
          (''blend_recommendation'',
           PStr ''This chapter should primarily emphasize Mystery elements while incorporating supporting elements from Mystery.'')] \<and>
     guidance_entry ''narrative_phase'' (determine_genre_emphasis g 4) = Some (PStr ''resolution'') \<and>
     guidance_entry ''focus'' (determine_genre_emphasis g 4) = Some (PStr ''resolving'')"
  using assms by (simp add: eval_emphasis guidance_entry_def)

lemma mystery_generator_later_arcs:
  "genre_arcs mystery_generator_later =
     [(''Mystery'',
       [(''mystery_elements'',
           AList [''Initial problem'', ''Clues'', ''Red herrings'', ''Revelations'', ''Solution'']),
        (''current_element'', AInt 0),
        (''revelations'', AList []),
        (''open_questions'', AList [''A clue in the margin'']),
        (''current_stage'', AInt 2)])]"
  by (simp add: mystery_generator_later_def update_genre_arcs_def clue_chapter_def dict_get_def
      mystery_generator_def mystery_arcs track_element_def and_then_def when_do_def
      arc_append_def dict_set_def lower_def lower_char_def total_chapters_def four_chapters_def
      chapter_position_def set_current_stage_def first_stage_list_def stage_list_keys_def
      stage_index_def py_int_def floor_rat_numeral Let_def)

lemma mystery_generator_later_frame:
  "total_chapters mystery_generator_later = Inr 4 \<and>
   genres mystery_generator_later = [''Mystery'']"
  by (simp add: mystery_generator_later_def update_genre_arcs_def clue_chapter_def dict_get_def
      mystery_generator_def mystery_arcs track_element_def and_then_def when_do_def
      arc_append_def dict_set_def lower_def lower_char_def total_chapters_def four_chapters_def
      chapter_position_def set_current_stage_def first_stage_list_def stage_list_keys_def
      stage_index_def py_int_def floor_rat_numeral Let_def)

section \<open>The phase of the guidance and the stage lists\<close>

lemma emphasis_reports:
  assumes "total_chapters g = Inr total_count"
    and "determine_genre_emphasis g chapter_num = Inr guidance"
  shows "map_of guidance ''narrative_phase'' =
           Some (PStr (snd (focus_and_phase (of_int chapter_num / of_nat total_count)))) \<and>
         map_of guidance ''focus'' =
           Some (PStr (fst (focus_and_phase (of_int chapter_num / of_nat total_count))))"
  using assms
  by (auto simp: determine_genre_emphasis_def chapter_position_def Let_def
      split: sum.splits if_splits)

lemma stage_at_usable:
  assumes "stages \<noteq> []" and "0 \<le> position"
  shows "\<exists>stage. stage_at position (AList stages) = Inr stage"
proof -
  have "0 \<le> position * of_nat (length stages)"
    using assms(2) by simp
  then have "0 \<le> py_int (position * of_nat (length stages))"
    by (simp add: py_int_def)
  moreover have "0 < length stages"
    using assms(1) by simp
  ultimately have "0 \<le> stage_index position (length stages) \<and>
      stage_index position (length stages) < int (length stages)"
    by (auto simp: stage_index_def)
  then show ?thesis
    by (simp add: stage_at_def list_index_def)
qed

lemma genre_stages_return:
  assumes "stages_usable arcs" and "0 \<le> position"
  shows "\<exists>genre_stages. genre_stages_of arcs position primary_genre secondary_genre = Inr genre_stages"
  using assms(1)
proof (induction arcs)
  case Nil
  then show ?case by simp
next
  case (Cons entry arcs)
  obtain genre arc_data where entry: "entry = (genre, arc_data)"
    by (cases entry)
  from Cons.prems have rest: "stages_usable arcs"
    by (simp add: stages_usable_def)
  then obtain gs where gs: "genre_stages_of arcs position primary_genre secondary_genre = Inr gs"
    using Cons.IH by blast
  show ?case
  proof (cases "emphasis_stage_list arc_data")
    case None
    then show ?thesis by (simp add: entry gs)
  next
    case (Some v)
    show ?thesis
    proof (cases v)
      case (AList stages)
      with Some Cons.prems have "stages \<noteq> []"
        by (simp add: stages_usable_def entry)
      then obtain stage where "stage_at position (AList stages) = Inr stage"
        using stage_at_usable assms(2) by blast
      then show ?thesis
        by (simp add: entry Some AList gs)
    next
      case (AInt i)
      with Some Cons.prems show ?thesis
        by (simp add: stages_usable_def entry)
    qed
  qed
qed

lemma emphasis_returns:
  assumes "total_chapters g = Inr total_count" and "0 < total_count" and "genres g \<noteq> []"
    and "0 \<le> chapter_num" and "stages_usable (genre_arcs g)"
  shows "\<exists>guidance. determine_genre_emphasis g chapter_num = Inr guidance"
proof -
  have "0 \<le> (of_int chapter_num / of_nat total_count :: rat)"
    using assms(2,4) by simp
  from genre_stages_return [OF assms(5) this]
  obtain genre_stages where
    "genre_stages_of (genre_arcs g) (of_int chapter_num / of_nat total_count)
       (genres g ! nat ((chapter_num - 1) mod int (length (genres g))))
       (genres g ! nat (((chapter_num - 1) mod int (length (genres g)) + 1)
                          mod int (length (genres g)))) = Inr genre_stages"
    by blast
  then show ?thesis
    using assms(1,2,3)
    by (simp add: determine_genre_emphasis_def chapter_position_def Let_def)
qed

lemma map_of_replace:
  "map_of (map (\<lambda>kv. if fst kv = k then (k, v) else kv) d) k' =
     (if k' = k then (case map_of d k of None \<Rightarrow> None | Some old \<Rightarrow> Some v) else map_of d k')"
  by (induction d) auto

lemma map_of_dict_set:
  "map_of (dict_set d k v) k' = (if k' = k then Some v else map_of d k')"
  by (cases "map_of d k") (auto simp: dict_set_def map_of_replace map_add_def split: option.splits)

lemma emphasis_stage_list_dict_set:
  assumes "k \<noteq> ''arc_stages''" and "k \<noteq> ''relationship_stages''" and "k \<noteq> ''mystery_elements''"
  shows "emphasis_stage_list (dict_set arc_data k v) = emphasis_stage_list arc_data"
  unfolding emphasis_stage_list_def map_of_dict_set using assms by simp

lemma arc_append_stages:
  assumes "k \<noteq> ''arc_stages''" and "k \<noteq> ''relationship_stages''" and "k \<noteq> ''mystery_elements''"
  shows "emphasis_stage_list (fst (arc_append k element arc_data)) = emphasis_stage_list arc_data"
  using assms
  by (simp add: arc_append_def emphasis_stage_list_dict_set split: option.split arc_value.split)

lemma and_then_keeps:
  assumes "\<And>a. P (fst (f a)) = P a"
  shows "P (fst (and_then r f)) = P (fst r)"
  by (cases r; cases "snd r") (simp_all add: and_then_def assms)

lemma when_do_keeps:
  assumes "\<And>a. P (fst (f a)) = P a"
  shows "P (fst (when_do b f a)) = P a"
  by (simp add: when_do_def assms)

lemma track_element_stages:
  "emphasis_stage_list (fst (track_element genre element arc_data)) = emphasis_stage_list arc_data"
proof -
  have app: "emphasis_stage_list (fst (arc_append k element a)) = emphasis_stage_list a"
    if "k \<in> {''key_moments'', ''emotional_beats'', ''revelations'', ''open_questions'',
              ''locations'', ''achievements'', ''key_elements'', ''genre_markers''}" for k a
    using that by (auto intro: arc_append_stages)
  have wd: "emphasis_stage_list (fst (when_do b (arc_append k element) a)) = emphasis_stage_list a"
    if "k \<in> {''key_moments'', ''emotional_beats'', ''revelations'', ''open_questions'',
              ''locations'', ''achievements'', ''key_elements'', ''genre_markers''}" for k a b
    using app [OF that] by (simp add: when_do_def)
  have two: "emphasis_stage_list (fst (and_then r (when_do b (arc_append k element)))) =
               emphasis_stage_list (fst r)"
    if "k \<in> {''key_moments'', ''emotional_beats'', ''revelations'', ''open_questions'',
              ''locations'', ''achievements'', ''key_elements'', ''genre_markers''}" for k r b
    using wd [OF that] by (rule and_then_keeps [where P = emphasis_stage_list])
  have gen: "emphasis_stage_list
               (fst (when_do b (\<lambda>a. and_then (arc_append ''key_elements'' element a)
                                       (arc_append ''genre_markers'' element)) a)) =
             emphasis_stage_list a" for a b
  proof (rule when_do_keeps [where P = emphasis_stage_list])
    fix a'
    have "emphasis_stage_list
            (fst (and_then (arc_append ''key_elements'' element a')
                    (arc_append ''genre_markers'' element))) =
          emphasis_stage_list (fst (arc_append ''key_elements'' element a'))"
      by (rule and_then_keeps [where P = emphasis_stage_list]) (simp add: app)
    then show "emphasis_stage_list
            (fst (and_then (arc_append ''key_elements'' element a')
                    (arc_append ''genre_markers'' element))) = emphasis_stage_list a'"
      by (simp add: app)
  qed
  show ?thesis
    unfolding track_element_def Let_def
    by (subst and_then_keeps [where P = emphasis_stage_list, OF gen])
       (simp add: two app wd)
qed

lemma track_in_arcs_stages:
  "map (\<lambda>entry. emphasis_stage_list (snd entry)) (fst (track_in_arcs arcs element)) =
     map (\<lambda>entry. emphasis_stage_list (snd entry)) arcs"
proof (induction arcs)
  case Nil
  then show ?case by simp
next
  case (Cons entry arcs)
  obtain genre arc_data where entry: "entry = (genre, arc_data)"
    by (cases entry)
  obtain a r where t: "track_element genre element arc_data = (a, r)"
    by (cases "track_element genre element arc_data")
  have a: "emphasis_stage_list a = emphasis_stage_list arc_data"
    using track_element_stages [of genre element arc_data] t by simp
  obtain rest' r' where rest: "track_in_arcs arcs element = (rest', r')"
    by (cases "track_in_arcs arcs element")
  show ?case
    using Cons.IH a by (cases r) (simp_all add: entry t rest)
qed

lemma track_elements_stages:
  "map (\<lambda>entry. emphasis_stage_list (snd entry)) (fst (track_elements elements arcs)) =
     map (\<lambda>entry. emphasis_stage_list (snd entry)) arcs"
proof (induction elements arbitrary: arcs)
  case Nil
  then show ?case by simp
next
  case (Cons element elements)
  show ?case
  proof (cases element)
    case (PStr t)
    have "map (\<lambda>entry. emphasis_stage_list (snd entry))
            (fst (and_then (track_in_arcs arcs t) (track_elements elements))) =
          map (\<lambda>entry. emphasis_stage_list (snd entry)) (fst (track_in_arcs arcs t))"
      by (rule and_then_keeps [where P = "map (\<lambda>entry. emphasis_stage_list (snd entry))"])
         (rule Cons.IH)
    then show ?thesis
      by (simp add: PStr track_in_arcs_stages)
  qed simp_all
qed

lemma set_current_stage_stages:
  "set_current_stage position arc_data = Inr a \<Longrightarrow>
   emphasis_stage_list a = emphasis_stage_list arc_data"
  by (auto simp: set_current_stage_def emphasis_stage_list_dict_set
      split: option.splits arc_value.splits)

lemma set_current_stages_stages:
  "map (\<lambda>entry. emphasis_stage_list (snd entry)) (fst (set_current_stages arcs position)) =
     map (\<lambda>entry. emphasis_stage_list (snd entry)) arcs"
proof (induction arcs)
  case Nil
  then show ?case by simp
next
  case (Cons entry arcs)
  obtain genre arc_data where entry: "entry = (genre, arc_data)"
    by (cases entry)
  obtain rest' r' where rest: "set_current_stages arcs position = (rest', r')"
    by (cases "set_current_stages arcs position")
  show ?case
    using Cons.IH set_current_stage_stages [of position arc_data]
    by (cases "set_current_stage position arc_data") (simp_all add: entry rest)
qed

lemma update_genre_arcs_stages:
  "map (\<lambda>entry. emphasis_stage_list (snd entry))
     (genre_arcs (fst (update_genre_arcs g chapter chapter_num))) =
   map (\<lambda>entry. emphasis_stage_list (snd entry)) (genre_arcs g)"
proof -
  let ?P = "map (\<lambda>entry. emphasis_stage_list (snd entry))"
  let ?ge = "dict_get chapter ''genre_elements_used'' (PList [])"
  let ?ge' = "case ?ge of PStr t \<Rightarrow> PList [?ge] | _ \<Rightarrow> ?ge"
  show ?thesis
  proof (cases "py_iter ?ge'")
    case (Inl e)
    then show ?thesis by (simp add: update_genre_arcs_def Let_def)
  next
    case (Inr elements)
    obtain arcs r where t: "track_elements elements (genre_arcs g) = (arcs, r)"
      by (cases "track_elements elements (genre_arcs g)")
    have arcs: "?P arcs = ?P (genre_arcs g)"
      using track_elements_stages [of elements "genre_arcs g"] t by simp
    show ?thesis
    proof (cases r)
      case (Some e)
      then show ?thesis
        using arcs by (simp add: update_genre_arcs_def Let_def Inr t)
    next
      case None
      show ?thesis
      proof (cases "total_chapters (g\<lparr>genre_arcs := arcs\<rparr>)")
        case (Inl e)
        then show ?thesis
          using arcs by (simp add: update_genre_arcs_def Let_def Inr t None)
      next
        case total: (Inr total_count)
        show ?thesis
        proof (cases "chapter_position chapter_num total_count")
          case (Inl e)
          then show ?thesis
            using arcs by (simp add: update_genre_arcs_def Let_def Inr t None total)
        next
          case pos: (Inr position)
          obtain arcs' r' where sc: "set_current_stages arcs position = (arcs', r')"
            by (cases "set_current_stages arcs position")
          have "?P arcs' = ?P arcs"
            using set_current_stages_stages [of arcs position] sc by simp
          then show ?thesis
            using arcs by (simp add: update_genre_arcs_def Let_def Inr t None total pos sc)
        qed
      qed
    qed
  qed
qed

lemma stages_usable_profile:
  "stages_usable arcs =
     list_all (\<lambda>v. case v of None \<Rightarrow> True | Some (AList stages) \<Rightarrow> stages \<noteq> []
                    | Some (AInt i) \<Rightarrow> False)
       (map (\<lambda>entry. emphasis_stage_list (snd entry)) arcs)"
  by (simp add: stages_usable_def list_all_iff)

lemma update_genre_arcs_keeps_stages:
  "stages_usable (genre_arcs (fst (update_genre_arcs g chapter chapter_num))) =
     stages_usable (genre_arcs g)"
  by (simp only: stages_usable_profile update_genre_arcs_stages)

lemma initial_arc_usable:
  "case emphasis_stage_list (initial_arc genre) of
     None \<Rightarrow> True | Some (AList stages) \<Rightarrow> stages \<noteq> [] | Some (AInt i) \<Rightarrow> False"
  by (simp add: initial_arc_def emphasis_stage_list_def Let_def)

lemma dict_set_usable:
  assumes "stages_usable arcs"
    and "case emphasis_stage_list arc_data of
           None \<Rightarrow> True | Some (AList stages) \<Rightarrow> stages \<noteq> [] | Some (AInt i) \<Rightarrow> False"
  shows "stages_usable (dict_set arcs genre arc_data)"
  using assms
  by (cases "map_of arcs genre") (auto simp: stages_usable_def dict_set_def list_all_iff)

lemma fold_initial_usable:
  "stages_usable arcs \<Longrightarrow>
   stages_usable (fold (\<lambda>genre arcs. dict_set arcs genre (initial_arc genre)) gs arcs)"
  by (induction gs arbitrary: arcs) (simp_all add: dict_set_usable initial_arc_usable)

lemma initialize_genre_arcs_usable: "stages_usable (initialize_genre_arcs gs)"
  unfolding initialize_genre_arcs_def
  by (rule fold_initial_usable) (simp add: stages_usable_def)

section \<open>The exception handler of chapter generation\<close>

lemma emphasis_returns_position:
  assumes "determine_genre_emphasis g chapter_num = Inr genre_guidance"
  shows "\<exists>total_count position.
           total_chapters g = Inr total_count \<and>
           chapter_position chapter_num total_count = Inr position"
  using assms by (auto simp: determine_genre_emphasis_def split: sum.splits)

lemma default_elements_return:
  assumes "determine_genre_emphasis g chapter_num = Inr genre_guidance"
  shows "\<exists>default_elements. get_default_genre_elements g chapter_num = Inr default_elements"
  using emphasis_returns_position [OF assms]
  by (auto simp: get_default_genre_elements_def)

lemma try_chapter_parse_failure:
  "parse response_content = Inl e \<Longrightarrow>
   try_chapter g parse response_content chapter_num = (g, Inl e)"
  by (simp add: try_chapter_def)

section \<open>The number of chapter outlines\<close>

text \<open>
  Two cases in which \<open>_generate_chapter_outlines\<close> returns as many outlines as asked for:
  the parser raises, or the parsed chapters are a list of dictionaries.
\<close>

lemma append_stubs_list:
  "append_stubs (PList xs) a b genres_str pacing =
     Inr (PList (xs @ map (outline_stub genres_str pacing) [a .. b - 1]))"
  by (simp add: append_stubs_def)

lemma parse_failure_gives_stubs:
  assumes "parse response_content = Inl e"
  shows "generate_chapter_outlines (Inr response_content) parse narrative_pacing' num_chapters genres' =
           Inr (PList (map (outline_stub (join_comma genres') narrative_pacing')
                         [0 .. num_chapters - 1]))"
    and "returned_count (generate_chapter_outlines (Inr response_content) parse
                           narrative_pacing' num_chapters genres') = Some (nat num_chapters)"
  using assms
  by (simp_all add: generate_chapter_outlines_def try_outlines_def append_stubs_list
      returned_count_def)

lemma set_default_dict:
  "set_default k v (PDict d) = Inr (PDict (if map_of d k \<noteq> None then d else dict_set d k v))"
  by (simp add: set_default_def)

lemma ensure_chapter_dict: "\<exists>d'. ensure_chapter genres_str pacing (PDict d) = Inr (PDict d')"
  by (simp add: ensure_chapter_def set_default_dict)

lemma ensure_chapters_dicts:
  assumes "\<forall>x \<in> set xs. \<exists>d. x = PDict d"
  shows "\<exists>ys. ensure_chapters xs genres_str pacing = (ys, None) \<and> length ys = length xs"
  using assms
proof (induction xs)
  case Nil
  then show ?case by simp
next
  case (Cons x xs)
  then obtain d where x: "x = PDict d" by auto
  obtain ys where ys: "ensure_chapters xs genres_str pacing = (ys, None)" "length ys = length xs"
    using Cons by auto
  obtain d' where "ensure_chapter genres_str pacing x = Inr (PDict d')"
    using ensure_chapter_dict [of genres_str pacing d] x by auto
  then show ?case
    using ys by auto
qed

lemma dict_chapters_give_count:
  assumes "parse response_content = Inr result"
    and "map_of result ''chapters'' = Some (PList xs)"
    and "\<forall>x \<in> set xs. \<exists>d. x = PDict d"
    and "0 \<le> num_chapters"
  shows "returned_count (generate_chapter_outlines (Inr response_content) parse
                           narrative_pacing' num_chapters genres') = Some (nat num_chapters)"
proof -
  let ?gs = "join_comma genres'"
  let ?stubs = "map (outline_stub ?gs narrative_pacing') [int (length xs) .. num_chapters - 1]"
  let ?sized = "if int (length xs) < num_chapters then xs @ ?stubs
                else if int (length xs) > num_chapters then slice_to xs num_chapters else xs"
  have all: "\<forall>x \<in> set ?sized. \<exists>d. x = PDict d"
    using assms(3) by (auto simp: slice_to_def outline_stub_def dest: in_set_takeD)
  have len: "length ?sized = nat num_chapters"
    using assms(4) by (auto simp: slice_to_def)
  obtain ys where ys: "ensure_chapters ?sized ?gs narrative_pacing' = (ys, None)"
      "length ys = length ?sized"
    using ensure_chapters_dicts [OF all] by blast
  have "try_outlines parse response_content num_chapters ?gs narrative_pacing' =
          ensure_all (PList ?sized) ?gs narrative_pacing'"
    by (simp add: try_outlines_def assms(1,2) dict_get_def append_stubs_list Let_def)
  then have "try_outlines parse response_content num_chapters ?gs narrative_pacing' =
               (PList ys, None)"
    by (simp only: ensure_all_def pyval.case ys(1) prod.case)
  then show ?thesis
    using ys(2) len by (simp add: generate_chapter_outlines_def returned_count_def)
qed

section \<open>The claims about the context store\<close>

text \<open>
  C2 as stated fails for a call that raises. A chapter whose key events are 50 strings
  followed by a number appends the 50 event points and then raises AttributeError on the
  number, before the last statement of \<open>update_with_chapter\<close>, the call of the pruning: the
  store is left with 50 points, more than \<open>3 * MAX_CONTEXT_ITEMS\<close>.
\<close>

theorem raising_update_skips_pruning:
  "snd (update_with_chapter init_store fifty_events_then_number 1) = Some AttributeError \<and>
   length (context_points (fst (update_with_chapter init_store fifty_events_then_number 1))) = 50 \<and>
   \<not> length (context_points (fst (update_with_chapter init_store fifty_events_then_number 1)))
       \<le> 3 * MAX_CONTEXT_ITEMS"
proof -
  have u: "update_before_prune init_store fifty_events_then_number 1 =
      (\<lparr>context_points =
          map (\<lambda>c. \<lparr>content = PStr [c], pchapter = 1, importance = ''medium'',
                      ptype = ''event'', weight = 2\<rparr>)
            ''abcdefghijklmnopqrstuvwxyzABCDEFGHIJKLMNOPQRSTUVWX'',
        chapter_summaries =
          [1 \<mapsto> chapter_summary fifty_events_then_number 1]\<rparr>, Some AttributeError)"
    by (simp add: update_before_prune_def fifty_events_then_number_def dict_get_def
        str_to_list_def init_store_def add_context_point_def Let_def event_importance_def
        lower_def lower_char_def weight_map_def)
  show ?thesis
    by (simp add: update_with_chapter_def u MAX_CONTEXT_ITEMS_def)
qed

text \<open>
  C2, as amended. When a call of \<open>update_with_chapter\<close> returns, the pruning has run on the
  points the call left: more than \<open>3 * MAX_CONTEXT_ITEMS\<close> (45) points are sorted
  descending by (weight, chapter) and cut to the first \<open>2 * MAX_CONTEXT_ITEMS\<close> (30), the
  rest being dropped; 45 points or fewer are left as they are. The summaries are not
  touched. So the store holds at most 45 points after a call that returns, and exactly 30
  when it had exceeded 45.
\<close>

theorem update_with_chapter_prunes:
  assumes "update_with_chapter s c i = (s', None)"
  shows "context_points s' =
           (if length (context_points (fst (update_before_prune s c i))) > 3 * MAX_CONTEXT_ITEMS
            then take (2 * MAX_CONTEXT_ITEMS)
                   (sort_points (context_points (fst (update_before_prune s c i))))
            else context_points (fst (update_before_prune s c i))) \<and>
         sorted_wrt ranks_before (sort_points (context_points (fst (update_before_prune s c i)))) \<and>
         mset (sort_points (context_points (fst (update_before_prune s c i)))) =
           mset (context_points (fst (update_before_prune s c i))) \<and>
         chapter_summaries s' = chapter_summaries (fst (update_before_prune s c i)) \<and>
         length (context_points s') \<le> 3 * MAX_CONTEXT_ITEMS \<and>
         (if length (context_points (fst (update_before_prune s c i))) > 3 * MAX_CONTEXT_ITEMS
          then length (context_points s') = 2 * MAX_CONTEXT_ITEMS
          else length (context_points s') = length (context_points (fst (update_before_prune s c i))))"
  using update_with_chapter_returns [OF assms]
  by (simp add: prune_context_points prune_context_summaries sorted_sort_points mset_sort_points
      length_sort_points MAX_CONTEXT_ITEMS_def)

theorem update_with_chapter_prunes_witness:
  "snd (update_with_chapter init_store forty_six_events 1) = None \<and>
   length (context_points (fst (update_before_prune init_store forty_six_events 1))) = 46 \<and>
   length (context_points (fst (update_with_chapter init_store forty_six_events 1))) = 30"
proof -
  have r: "snd (update_with_chapter init_store forty_six_events 1) = None"
    by (simp add: update_with_chapter_def update_before_prune_def forty_six_events_def
        dict_get_def str_to_list_def init_store_def add_character_dev_def add_high_points_def
        add_context_point_def Let_def split: prod.splits)
  have l: "length (context_points (fst (update_before_prune init_store forty_six_events 1))) = 46"
    by (simp add: update_before_prune_def forty_six_events_def
        dict_get_def str_to_list_def init_store_def add_character_dev_def add_high_points_def
        add_context_point_def Let_def split: prod.splits)
  have h: "update_with_chapter init_store forty_six_events 1 =
      (fst (update_with_chapter init_store forty_six_events 1), None)"
    using r by (simp add: prod_eq_iff)
  show ?thesis
    using update_with_chapter_prunes [OF h] r l by (simp add: MAX_CONTEXT_ITEMS_def length_sort_points)
qed

text \<open>
  C3, as amended. Take any call \<open>update_with_chapter(c, i)\<close> with \<open>i \<ge> 1\<close>, returning or
  raising, and the bundle of \<open>get_context_for_chapter(i + 1)\<close> on the store it leaves.
  The summary of \<open>c\<close> (title, summary, key_events) is in \<open>previous_chapters\<close>, which holds
  exactly the stored summaries of the chapters 1 to \<open>i\<close>, in that order. The sorted list
  is a rearrangement of the stored points with chapter below \<open>i + 1\<close>, in descending order
  of (weight, chapter), and each of the three point lists is the first
  \<open>MAX_CONTEXT_ITEMS\<close> contents of its type in it: no point of a chapter from \<open>i + 1\<close> on
  is included, and beyond 15 points of a type only the 15 ranking first are. When the call
  left at most \<open>3 * MAX_CONTEXT_ITEMS\<close> points before the pruning, so that none was
  dropped, every point extracted from \<open>c\<close> is stored with a chapter below \<open>i + 1\<close>, and its
  content is in the list of its type whenever at most \<open>MAX_CONTEXT_ITEMS\<close> stored points
  of that type have a chapter below \<open>i + 1\<close>.
\<close>

theorem update_then_context_visibility:
  assumes "1 \<le> i"
  shows "chapter_summary c i \<in>
      set (previous_chapters
             (fst (get_context_for_chapter (fst (update_with_chapter s c i)) (i + 1)))) \<and>
    previous_chapters (fst (get_context_for_chapter (fst (update_with_chapter s c i)) (i + 1))) =
      List.map_filter (chapter_summaries (fst (update_with_chapter s c i))) [1 .. i] \<and>
    mset (relevant_points (fst (update_with_chapter s c i)) (i + 1)) =
      mset (filter (\<lambda>p. pchapter p < i + 1) (context_points (fst (update_with_chapter s c i)))) \<and>
    sorted_wrt ranks_before (relevant_points (fst (update_with_chapter s c i)) (i + 1)) \<and>
    key_events (fst (get_context_for_chapter (fst (update_with_chapter s c i)) (i + 1))) =
      take MAX_CONTEXT_ITEMS
        (map content (filter (\<lambda>p. ptype p = ''event'')
                        (relevant_points (fst (update_with_chapter s c i)) (i + 1)))) \<and>
    character_developments
        (fst (get_context_for_chapter (fst (update_with_chapter s c i)) (i + 1))) =
      take MAX_CONTEXT_ITEMS
        (map content (filter (\<lambda>p. ptype p = ''character_development'')
                        (relevant_points (fst (update_with_chapter s c i)) (i + 1)))) \<and>
    open_hooks (fst (get_context_for_chapter (fst (update_with_chapter s c i)) (i + 1))) =
      take MAX_CONTEXT_ITEMS
        (map content (filter (\<lambda>p. ptype p = ''hook'')
                        (relevant_points (fst (update_with_chapter s c i)) (i + 1)))) \<and>
    set (key_events (fst (get_context_for_chapter (fst (update_with_chapter s c i)) (i + 1)))) \<subseteq>
      content ` {p \<in> set (context_points (fst (update_with_chapter s c i))).
                  pchapter p < i + 1 \<and> ptype p = ''event''} \<and>
    set (character_developments
           (fst (get_context_for_chapter (fst (update_with_chapter s c i)) (i + 1)))) \<subseteq>
      content ` {p \<in> set (context_points (fst (update_with_chapter s c i))).
                  pchapter p < i + 1 \<and> ptype p = ''character_development''} \<and>
    set (open_hooks (fst (get_context_for_chapter (fst (update_with_chapter s c i)) (i + 1)))) \<subseteq>
      content ` {p \<in> set (context_points (fst (update_with_chapter s c i))).
                  pchapter p < i + 1 \<and> ptype p = ''hook''} \<and>
    (length (context_points (fst (update_before_prune s c i))) \<le> 3 * MAX_CONTEXT_ITEMS \<longrightarrow>
      (\<forall>p \<in> set (points_added s c i).
         p \<in> set (context_points (fst (update_with_chapter s c i))) \<and> pchapter p < i + 1 \<and>
         (ptype p = ''event'' \<and>
          length (filter (\<lambda>q. pchapter q < i + 1 \<and> ptype q = ''event'')
                    (context_points (fst (update_with_chapter s c i)))) \<le> MAX_CONTEXT_ITEMS \<longrightarrow>
            content p \<in> set (key_events
              (fst (get_context_for_chapter (fst (update_with_chapter s c i)) (i + 1))))) \<and>
         (ptype p = ''character_development'' \<and>
          length (filter (\<lambda>q. pchapter q < i + 1 \<and> ptype q = ''character_development'')
                    (context_points (fst (update_with_chapter s c i)))) \<le> MAX_CONTEXT_ITEMS \<longrightarrow>
            content p \<in> set (character_developments
              (fst (get_context_for_chapter (fst (update_with_chapter s c i)) (i + 1))))) \<and>
         (ptype p = ''hook'' \<and>
          length (filter (\<lambda>q. pchapter q < i + 1 \<and> ptype q = ''hook'')
                    (context_points (fst (update_with_chapter s c i)))) \<le> MAX_CONTEXT_ITEMS \<longrightarrow>
            content p \<in> set (open_hooks
              (fst (get_context_for_chapter (fst (update_with_chapter s c i)) (i + 1)))))))"
proof -
  let ?s' = "fst (update_with_chapter s c i)"
  let ?b = "fst (get_context_for_chapter ?s' (i + 1))"
  have n1: "i + 1 \<noteq> 1" using assms by simp
  have summ: "chapter_summaries ?s' i = Some (chapter_summary c i)"
    by (simp add: update_with_chapter_summaries)
  have prev: "previous_chapters ?b = List.map_filter (chapter_summaries ?s') [1 .. i]"
    by (simp add: bundle_not_first [OF n1])
  have a: "chapter_summary c i \<in> set (previous_chapters ?b)"
    unfolding prev set_map_filter using summ assms by auto
  have ke: "key_events ?b =
      take MAX_CONTEXT_ITEMS (contents_of_type ''event'' (relevant_points ?s' (i + 1)))"
    and cd: "character_developments ?b =
      take MAX_CONTEXT_ITEMS (contents_of_type ''character_development'' (relevant_points ?s' (i + 1)))"
    and oh: "open_hooks ?b =
      take MAX_CONTEXT_ITEMS (contents_of_type ''hook'' (relevant_points ?s' (i + 1)))"
    by (simp_all only: bundle_not_first [OF n1] context_bundle.simps)
  have srt: "mset (relevant_points ?s' (i + 1)) =
      mset (filter (\<lambda>p. pchapter p < i + 1) (context_points ?s'))"
    "sorted_wrt ranks_before (relevant_points ?s' (i + 1))"
    by (simp_all only: relevant_points_def mset_sort_points sorted_sort_points)
  have ext: "\<forall>p \<in> set (points_added s c i).
         p \<in> set (context_points ?s') \<and> pchapter p < i + 1 \<and>
         (ptype p = ''event'' \<and>
          length (filter (\<lambda>q. pchapter q < i + 1 \<and> ptype q = ''event'')
                    (context_points ?s')) \<le> MAX_CONTEXT_ITEMS \<longrightarrow>
            content p \<in> set (key_events ?b)) \<and>
         (ptype p = ''character_development'' \<and>
          length (filter (\<lambda>q. pchapter q < i + 1 \<and> ptype q = ''character_development'')
                    (context_points ?s')) \<le> MAX_CONTEXT_ITEMS \<longrightarrow>
            content p \<in> set (character_developments ?b)) \<and>
         (ptype p = ''hook'' \<and>
          length (filter (\<lambda>q. pchapter q < i + 1 \<and> ptype q = ''hook'')
                    (context_points ?s')) \<le> MAX_CONTEXT_ITEMS \<longrightarrow>
            content p \<in> set (open_hooks ?b))"
    if le: "length (context_points (fst (update_before_prune s c i))) \<le> 3 * MAX_CONTEXT_ITEMS"
  proof
    fix p assume p: "p \<in> set (points_added s c i)"
    have st: "p \<in> set (context_points ?s')"
      using update_with_chapter_unpruned [OF le] p by simp
    have ch: "pchapter p < i + 1"
      using points_added_chapter [OF p] by simp
    have vis: "content p \<in> set (take MAX_CONTEXT_ITEMS (contents_of_type t (relevant_points ?s' (i + 1))))"
      if "ptype p = t"
        and "length (filter (\<lambda>q. pchapter q < i + 1 \<and> ptype q = t) (context_points ?s'))
               \<le> MAX_CONTEXT_ITEMS" for t
      using take_contents_all [OF that(2)] st ch that(1) by blast
    show "p \<in> set (context_points ?s') \<and> pchapter p < i + 1 \<and>
         (ptype p = ''event'' \<and>
          length (filter (\<lambda>q. pchapter q < i + 1 \<and> ptype q = ''event'')
                    (context_points ?s')) \<le> MAX_CONTEXT_ITEMS \<longrightarrow>
            content p \<in> set (key_events ?b)) \<and>
         (ptype p = ''character_development'' \<and>
          length (filter (\<lambda>q. pchapter q < i + 1 \<and> ptype q = ''character_development'')
                    (context_points ?s')) \<le> MAX_CONTEXT_ITEMS \<longrightarrow>
            content p \<in> set (character_developments ?b)) \<and>
         (ptype p = ''hook'' \<and>
          length (filter (\<lambda>q. pchapter q < i + 1 \<and> ptype q = ''hook'')
                    (context_points ?s')) \<le> MAX_CONTEXT_ITEMS \<longrightarrow>
            content p \<in> set (open_hooks ?b))"
      unfolding ke cd oh using st ch vis by blast
  qed
  have lists: "key_events ?b =
      take MAX_CONTEXT_ITEMS
        (map content (filter (\<lambda>p. ptype p = ''event'') (relevant_points ?s' (i + 1))))"
    "character_developments ?b =
      take MAX_CONTEXT_ITEMS
        (map content (filter (\<lambda>p. ptype p = ''character_development'')
                        (relevant_points ?s' (i + 1))))"
    "open_hooks ?b =
      take MAX_CONTEXT_ITEMS
        (map content (filter (\<lambda>p. ptype p = ''hook'') (relevant_points ?s' (i + 1))))"
    using ke cd oh by (simp_all only: contents_of_type_def)
  have subs:
    "set (key_events ?b) \<subseteq>
       content ` {p \<in> set (context_points ?s'). pchapter p < i + 1 \<and> ptype p = ''event''}"
    "set (character_developments ?b) \<subseteq>
       content ` {p \<in> set (context_points ?s').
                   pchapter p < i + 1 \<and> ptype p = ''character_development''}"
    "set (open_hooks ?b) \<subseteq>
       content ` {p \<in> set (context_points ?s'). pchapter p < i + 1 \<and> ptype p = ''hook''}"
    unfolding ke cd oh by (rule take_contents_subset)+
  show ?thesis
    using a prev srt lists subs ext by blast
qed

theorem update_then_context_visibility_witness:
  "(1::int) \<le> 1 \<and>
   length (context_points (fst (update_before_prune init_store letter_chapter 1)))
     \<le> 3 * MAX_CONTEXT_ITEMS \<and>
   map content (points_added init_store letter_chapter 1) =
     [PStr ''Hero found the letter'', PStr ''Hero doubts'', PStr ''Who wrote it?''] \<and>
   chapter_summary letter_chapter 1 \<in>
     set (previous_chapters
            (fst (get_context_for_chapter
                    (fst (update_with_chapter init_store letter_chapter 1)) (1 + 1)))) \<and>
   PStr ''Hero found the letter'' \<in>
     set (key_events
            (fst (get_context_for_chapter
                    (fst (update_with_chapter init_store letter_chapter 1)) (1 + 1)))) \<and>
   PStr ''Hero doubts'' \<in>
     set (character_developments
            (fst (get_context_for_chapter
                    (fst (update_with_chapter init_store letter_chapter 1)) (1 + 1)))) \<and>
   PStr ''Who wrote it?'' \<in>
     set (open_hooks
            (fst (get_context_for_chapter
                    (fst (update_with_chapter init_store letter_chapter 1)) (1 + 1))))"
proof -
  have h1: "(1::int) \<le> 1" by simp
  have le: "length (context_points (fst (update_before_prune init_store letter_chapter 1)))
              \<le> 3 * MAX_CONTEXT_ITEMS"
    by (simp add: letter_chapter_before_prune letter_chapter_update MAX_CONTEXT_ITEMS_def)
  have cnt: "length (filter (\<lambda>q. pchapter q < 1 + 1 \<and> ptype q = t)
               (context_points (fst (update_with_chapter init_store letter_chapter 1))))
             \<le> MAX_CONTEXT_ITEMS" for t
    by (simp add: letter_chapter_update MAX_CONTEXT_ITEMS_def)
  note vis = update_then_context_visibility [OF h1, of letter_chapter init_store]
  from vis le have ext:
    "\<forall>p \<in> set (points_added init_store letter_chapter 1).
       (ptype p = ''event'' \<longrightarrow>
          content p \<in> set (key_events
            (fst (get_context_for_chapter
                    (fst (update_with_chapter init_store letter_chapter 1)) (1 + 1))))) \<and>
       (ptype p = ''character_development'' \<longrightarrow>
          content p \<in> set (character_developments
            (fst (get_context_for_chapter
                    (fst (update_with_chapter init_store letter_chapter 1)) (1 + 1))))) \<and>
       (ptype p = ''hook'' \<longrightarrow>
          content p \<in> set (open_hooks
            (fst (get_context_for_chapter
                    (fst (update_with_chapter init_store letter_chapter 1)) (1 + 1)))))"
    using cnt by blast
  let ?b = "fst (get_context_for_chapter
                  (fst (update_with_chapter init_store letter_chapter 1)) (1 + 1))"
  have pa: "map content (points_added init_store letter_chapter 1) =
      [PStr ''Hero found the letter'', PStr ''Hero doubts'', PStr ''Who wrote it?'']"
    by (simp add: letter_chapter_added)
  have a: "chapter_summary letter_chapter 1 \<in> set (previous_chapters ?b)"
    using vis by (rule conjunct1)
  have k: "PStr ''Hero found the letter'' \<in> set (key_events ?b)"
    and d: "PStr ''Hero doubts'' \<in> set (character_developments ?b)"
    and h: "PStr ''Who wrote it?'' \<in> set (open_hooks ?b)"
    using ext by (simp_all add: letter_chapter_added)
  show ?thesis
    using h1 le pa a k d h by (intro conjI)
qed

text \<open>
  C3 as stated fails where it promises every extracted point: a first chapter with 16 key
  events leaves 16 event points of chapter 1 in the store, and the bundle for chapter 2
  holds the first 15 only.
\<close>

theorem extracted_point_cut_off:
  "snd (update_with_chapter init_store sixteen_events 1) = None \<and>
   \<lparr>content = PStr ''p'', pchapter = 1, importance = ''medium'', ptype = ''event'', weight = 2\<rparr>
     \<in> set (context_points (fst (update_with_chapter init_store sixteen_events 1))) \<and>
   PStr ''p'' \<notin> set (key_events (fst (get_context_for_chapter
       (fst (update_with_chapter init_store sixteen_events 1)) (1 + 1))))"
proof -
  have u: "context_points (fst (update_with_chapter init_store sixteen_events 1)) =
      map (\<lambda>c. \<lparr>content = PStr [c], pchapter = 1, importance = ''medium'', ptype = ''event'',
                 weight = 2\<rparr>) ''abcdefghijklmnop''"
    by (simp add: eval_update sixteen_events_def)
  have r: "snd (update_with_chapter init_store sixteen_events 1) = None"
    by (simp add: eval_update sixteen_events_def)
  have k: "key_events (fst (get_context_for_chapter
       (fst (update_with_chapter init_store sixteen_events 1)) 2)) =
      map (\<lambda>c. PStr [c]) ''abcdefghijklmno''"
    by (simp add: get_context_for_chapter_def relevant_points_def u
      contents_of_type_def sort_points_def sort_key_of_def MAX_CONTEXT_ITEMS_def)
  show ?thesis
    by (simp add: u r k)
qed

text \<open>
  C5. When \<open>key_events\<close> of the chapter record is a string, the event points the call
  appends are exactly one point holding the whole string if it is not empty, and none if it
  is empty; when it is a list of strings there is one event point per string, in order.
  Each event point has importance high (weight 3) exactly when its text, lower-cased,
  contains \<open>critical\<close> or \<open>important\<close>, and medium (weight 2) otherwise. The appended
  points are the store's new tail whenever the pruning does not fire.
\<close>

theorem string_key_events_one_point:
  "(map_of c ''key_events'' = Some (PStr t) \<longrightarrow>
      filter (\<lambda>p. ptype p = ''event'') (points_added s c i) =
        (if t = [] then [] else [event_point i t])) \<and>
   (map_of c ''key_events'' = Some (PList (map PStr ts)) \<longrightarrow>
      filter (\<lambda>p. ptype p = ''event'') (points_added s c i) = map (event_point i) ts) \<and>
   (length (context_points (fst (update_before_prune s c i))) \<le> 3 * MAX_CONTEXT_ITEMS \<longrightarrow>
      context_points (fst (update_with_chapter s c i)) = context_points s @ points_added s c i)"
proof (intro conjI impI)
  assume k: "map_of c ''key_events'' = Some (PStr t)"
  then have "py_iter (str_to_list (dict_get c ''key_events'' (PList []))) =
      Inr (map PStr (if t = [] then [] else [t]))"
    by (simp add: dict_get_def str_to_list_def)
  from points_added_strings [OF this, of s i] obtain rest where
    "points_added s c i = map (event_point i) (if t = [] then [] else [t]) @ rest"
    "\<forall>p \<in> set rest. ptype p \<noteq> ''event''"
    by blast
  then show "filter (\<lambda>p. ptype p = ''event'') (points_added s c i) =
        (if t = [] then [] else [event_point i t])"
    using filter_events_strings [of rest i "if t = [] then [] else [t]"] by simp
next
  assume k: "map_of c ''key_events'' = Some (PList (map PStr ts))"
  then have "py_iter (str_to_list (dict_get c ''key_events'' (PList []))) = Inr (map PStr ts)"
    by (simp add: dict_get_def str_to_list_def)
  from points_added_strings [OF this, of s i] obtain rest where
    "points_added s c i = map (event_point i) ts @ rest"
    "\<forall>p \<in> set rest. ptype p \<noteq> ''event''"
    by blast
  then show "filter (\<lambda>p. ptype p = ''event'') (points_added s c i) = map (event_point i) ts"
    using filter_events_strings [of rest i ts] by simp
next
  assume "length (context_points (fst (update_before_prune s c i))) \<le> 3 * MAX_CONTEXT_ITEMS"
  then show "context_points (fst (update_with_chapter s c i)) =
      context_points s @ points_added s c i"
    by (rule update_with_chapter_unpruned)
qed

theorem string_key_events_one_point_witness:
  "map_of letter_chapter ''key_events'' = Some (PStr ''Hero found the letter'') \<and>
   filter (\<lambda>p. ptype p = ''event'') (points_added init_store letter_chapter 1) =
     [\<lparr>content = PStr ''Hero found the letter'', pchapter = 1, importance = ''medium'',
       ptype = ''event'', weight = 2\<rparr>] \<and>
   length (context_points (fst (update_before_prune init_store letter_chapter 1)))
     \<le> 3 * MAX_CONTEXT_ITEMS \<and>
   length (filter (\<lambda>p. ptype p = ''event'')
     (context_points (fst (update_with_chapter init_store letter_chapter 1)))) = 1"
proof -
  have k: "map_of letter_chapter ''key_events'' = Some (PStr ''Hero found the letter'')"
    by (simp add: letter_chapter_def)
  have imp: "event_point 1 ''Hero found the letter'' =
      \<lparr>content = PStr ''Hero found the letter'', pchapter = 1, importance = ''medium'',
       ptype = ''event'', weight = 2\<rparr>"
    by (simp add: event_point_eq event_importance_def lower_def lower_char_def weight_map_def)
  have le: "length (context_points (fst (update_before_prune init_store letter_chapter 1)))
     \<le> 3 * MAX_CONTEXT_ITEMS"
    by (simp add: eval_update letter_chapter_def)
  show ?thesis
    using string_key_events_one_point
      [of letter_chapter "''Hero found the letter''" init_store 1 "[]"] k imp le
    by (simp add: letter_chapter_update init_store_def)
qed

text \<open>
  C1. For \<open>n > 1\<close> the list \<open>relevant_points\<close> is a rearrangement of the stored points with
  chapter below \<open>n\<close>, in descending order of (weight, chapter): a point never stands before
  one of higher weight, nor before a more recent one of the same weight. Each of the three
  lists of the bundle is the contents of the points of its type in that order, cut to the
  first \<open>MAX_CONTEXT_ITEMS\<close>, so none is longer than \<open>MAX_CONTEXT_ITEMS\<close>.
\<close>

theorem get_context_sorted_partitioned_truncated:
  assumes "1 < n"
  shows "mset (relevant_points s n) = mset (filter (\<lambda>p. pchapter p < n) (context_points s)) \<and>
     sorted_wrt ranks_before (relevant_points s n) \<and>
     key_events (fst (get_context_for_chapter s n)) =
       take MAX_CONTEXT_ITEMS (map content (filter (\<lambda>p. ptype p = ''event'') (relevant_points s n))) \<and>
     character_developments (fst (get_context_for_chapter s n)) =
       take MAX_CONTEXT_ITEMS
         (map content (filter (\<lambda>p. ptype p = ''character_development'') (relevant_points s n))) \<and>
     open_hooks (fst (get_context_for_chapter s n)) =
       take MAX_CONTEXT_ITEMS (map content (filter (\<lambda>p. ptype p = ''hook'') (relevant_points s n))) \<and>
     length (key_events (fst (get_context_for_chapter s n))) \<le> MAX_CONTEXT_ITEMS \<and>
     length (character_developments (fst (get_context_for_chapter s n))) \<le> MAX_CONTEXT_ITEMS \<and>
     length (open_hooks (fst (get_context_for_chapter s n))) \<le> MAX_CONTEXT_ITEMS"
  using assms
  by (simp add: get_context_for_chapter_def Let_def contents_of_type_def relevant_points_def
      mset_sort_points sorted_sort_points)

theorem get_context_sorted_partitioned_truncated_witness:
  "(1::int) < 3 \<and>
   key_events (fst (get_context_for_chapter example_store 3)) =
     [PStr ''critical clue found'', PStr ''left the village'', PStr ''met the guide''] \<and>
   character_developments (fst (get_context_for_chapter example_store 3)) = [PStr ''grows bolder''] \<and>
   open_hooks (fst (get_context_for_chapter example_store 3)) = [PStr ''who sent the letter'']"
  using get_context_sorted_partitioned_truncated [of 3 example_store]
  by (simp add: relevant_points_def example_store_def example_points_def sort_points_def
      sort_key_of_def MAX_CONTEXT_ITEMS_def)

text \<open>
  C4. Whatever the store holds, \<open>get_context_for_chapter(1)\<close> returns the bundle whose four
  lists are empty.
\<close>

theorem get_context_first_chapter_empty:
  "fst (get_context_for_chapter s 1) =
     \<lparr>previous_chapters = [], key_events = [], character_developments = [], open_hooks = []\<rparr>"
  by (simp add: get_context_for_chapter_def)

text \<open>
  C9. \<open>get_context_for_chapter\<close> leaves the store as it was (points, their order and weights,
  and summaries; nothing is pruned), and a second call on the store it leaves returns the
  same bundle.
\<close>

theorem get_context_read_only:
  "snd (get_context_for_chapter s n) = s \<and>
   (case get_context_for_chapter s n of
      (b1, s1) \<Rightarrow>
        (case get_context_for_chapter s1 n of
           (b2, s2) \<Rightarrow> b1 = b2 \<and> s1 = s \<and> s2 = s))"
  by (simp add: get_context_for_chapter_def Let_def)

text \<open>
  C10. For a chapter number of 0 or below, on a store whose points all have a chapter
  number of 0 or above, \<open>get_context_for_chapter\<close> returns the bundle with four empty
  lists, as it does for chapter 1; the function is total, so nothing is raised.
\<close>

theorem get_context_nonpositive_empty:
  assumes "chapter_num \<le> 0" and "\<forall>p \<in> set (context_points s). 0 \<le> pchapter p"
  shows "fst (get_context_for_chapter s chapter_num) = empty_bundle \<and>
         fst (get_context_for_chapter s chapter_num) = fst (get_context_for_chapter s 1)"
  using assms
  by (auto simp: get_context_for_chapter_def empty_bundle_def relevant_points_def
      contents_of_type_def sort_points_def List.map_filter_def Let_def filter_empty_conv)

theorem get_context_nonpositive_empty_witness:
  "(- 2 :: int) \<le> 0 \<and> map pchapter (context_points example_store) = [1, 1, 2, 2, 2, 3] \<and>
   fst (get_context_for_chapter example_store (- 2)) =
     \<lparr>previous_chapters = [], key_events = [], character_developments = [], open_hooks = []\<rparr>"
proof -
  have h1: "(- 2 :: int) \<le> 0" by simp
  have h2: "\<forall>p \<in> set (context_points example_store). 0 \<le> pchapter p"
    by (simp add: example_store_def example_points_def)
  show ?thesis
    using get_context_nonpositive_empty [OF h1 h2]
    by (simp add: empty_bundle_def example_store_def example_points_def)
qed

section \<open>The claims about chapter generation\<close>

text \<open>
  C7 as stated fails at chapter 3: with the genre Mystery and four chapters the position
  of chapter 3 is 3/4, the test \<open>chapter_position <= 0.75\<close> holds, and the guidance reports
  the phase \<open>complication\<close>. The word \<open>resolving\<close> is a value of the entry \<open>focus\<close>, never of
  \<open>narrative_phase\<close>.
\<close>

theorem chapter_three_phase_complication:
  "genres mystery_generator = [''Mystery''] \<and> total_chapters mystery_generator = Inr 4 \<and>
   guidance_entry ''narrative_phase'' (determine_genre_emphasis mystery_generator 3) =
     Some (PStr ''complication'') \<and>
   guidance_entry ''narrative_phase'' (determine_genre_emphasis mystery_generator 3) \<noteq>
     Some (PStr ''resolving'')"
  using mystery_generator_arcs
  by (simp add: mystery_generator_total mystery_generator_genres eval_emphasis guidance_entry_def)

text \<open>
  C7, as amended. In a run with the one genre Mystery and four chapters in the outline,
  whatever the genre arcs hold by then, the guidance computed for chapter 1 reports the
  phase \<open>introduction\<close> with focus \<open>establishing\<close>, the guidance for chapters 2 and 3 the
  phase \<open>complication\<close> with focus \<open>developing\<close> (the position 3/4 of chapter 3 passes the
  inclusive test \<open><= 0.75\<close>), and the guidance for chapter 4 the phase \<open>resolution\<close> with
  focus \<open>resolving\<close>. The guidance is computed, raising nothing, for each of the four
  chapters whenever the stage lists it reads are lists with at least one stage.
\<close>

theorem mystery_four_chapters_phases:
  assumes "total_chapters g = Inr 4" and "genres g = [''Mystery'']"
  shows "(\<forall>guidance. determine_genre_emphasis g 1 = Inr guidance \<longrightarrow>
            map_of guidance ''narrative_phase'' = Some (PStr ''introduction'') \<and>
            map_of guidance ''focus'' = Some (PStr ''establishing'')) \<and>
         (\<forall>guidance. determine_genre_emphasis g 2 = Inr guidance \<longrightarrow>
            map_of guidance ''narrative_phase'' = Some (PStr ''complication'') \<and>
            map_of guidance ''focus'' = Some (PStr ''developing'')) \<and>
         (\<forall>guidance. determine_genre_emphasis g 3 = Inr guidance \<longrightarrow>
            map_of guidance ''narrative_phase'' = Some (PStr ''complication'') \<and>
            map_of guidance ''focus'' = Some (PStr ''developing'')) \<and>
         (\<forall>guidance. determine_genre_emphasis g 4 = Inr guidance \<longrightarrow>
            map_of guidance ''narrative_phase'' = Some (PStr ''resolution'') \<and>
            map_of guidance ''focus'' = Some (PStr ''resolving'')) \<and>
         (stages_usable (genre_arcs g) \<longrightarrow>
            (\<forall>chapter_num \<in> {1, 2, 3, 4}.
               \<exists>guidance. determine_genre_emphasis g chapter_num = Inr guidance))"
proof -
  have rep: "map_of guidance ''narrative_phase'' =
               Some (PStr (snd (focus_and_phase (of_int chapter_num / 4)))) \<and>
             map_of guidance ''focus'' =
               Some (PStr (fst (focus_and_phase (of_int chapter_num / 4))))"
    if "determine_genre_emphasis g chapter_num = Inr guidance" for chapter_num guidance
    using emphasis_reports [OF assms(1) that] by simp
  have ret: "\<exists>guidance. determine_genre_emphasis g chapter_num = Inr guidance"
    if "stages_usable (genre_arcs g)" and "0 \<le> chapter_num" for chapter_num
    using emphasis_returns [OF assms(1) _ _ that(2) that(1)] assms(2) by simp
  show ?thesis
    using rep [of 1] rep [of 2] rep [of 3] rep [of 4] ret
    by (auto simp: phases)
qed

theorem mystery_four_chapters_phases_witness:
  "total_chapters mystery_generator_later = Inr 4 \<and>
   genres mystery_generator_later = [''Mystery''] \<and>
   stages_usable (genre_arcs mystery_generator_later) \<and>
   guidance_entry ''narrative_phase'' (determine_genre_emphasis mystery_generator_later 1) =
     Some (PStr ''introduction'') \<and>
   guidance_entry ''narrative_phase'' (determine_genre_emphasis mystery_generator_later 2) =
     Some (PStr ''complication'') \<and>
   guidance_entry ''narrative_phase'' (determine_genre_emphasis mystery_generator_later 3) =
     Some (PStr ''complication'') \<and>
   guidance_entry ''focus'' (determine_genre_emphasis mystery_generator_later 3) =
     Some (PStr ''developing'') \<and>
   guidance_entry ''narrative_phase'' (determine_genre_emphasis mystery_generator_later 4) =
     Some (PStr ''resolution'')"
proof -
  have h1: "total_chapters mystery_generator_later = Inr 4"
    and h2: "genres mystery_generator_later = [''Mystery'']"
    using mystery_generator_later_frame by simp_all
  have h3: "stages_usable (genre_arcs mystery_generator_later)"
    by (simp add: mystery_generator_later_arcs stages_usable_def emphasis_stage_list_def)
  note t = mystery_four_chapters_phases [OF h1 h2]
  have r: "\<exists>guidance. determine_genre_emphasis mystery_generator_later chapter_num = Inr guidance"
    if "chapter_num \<in> {1, 2, 3, 4}" for chapter_num
    using t h3 that by blast
  obtain g1 where g1: "determine_genre_emphasis mystery_generator_later 1 = Inr g1"
    using r [of 1] by auto
  obtain g2 where g2: "determine_genre_emphasis mystery_generator_later 2 = Inr g2"
    using r [of 2] by auto
  obtain g3 where g3: "determine_genre_emphasis mystery_generator_later 3 = Inr g3"
    using r [of 3] by auto
  obtain g4 where g4: "determine_genre_emphasis mystery_generator_later 4 = Inr g4"
    using r [of 4] by auto
  show ?thesis
    using t g1 g2 g3 g4 h1 h2 h3 by (simp add: guidance_entry_def)
qed

text \<open>
  C6. Whenever \<open>generate_chapter\<close> reaches the parser (the outline lookup, the genre
  guidance and the call of the chain have returned) and the parser raises, whatever the
  exception, \<open>generate_chapter\<close> raises nothing: it leaves the generator as it was and
  returns the fallback chapter, which holds the chapter number and the eight fields of the
  schema, with \<open>key_events\<close> the empty list. The default genre elements of the fallback
  cannot raise there, since the guidance has already divided by the same chapter count.
\<close>

theorem parse_failure_gives_fallback:
  assumes "get_chapter_outline g chapter_num = Inr chapter_outline"
    and "determine_genre_emphasis g chapter_num = Inr genre_guidance"
    and "chain chapter_num chapter_outline
           (fst (get_context_for_chapter (context_manager g) chapter_num))
           (join_comma (genres g)) genre_guidance = Inr response_content"
    and "parse response_content = Inl e"
  shows "case get_default_genre_elements g chapter_num of
           Inl e' \<Rightarrow> False
         | Inr default_elements \<Rightarrow>
             generate_chapter g chain parse chapter_num =
               (g, Inr (fallback_chapter chapter_num chapter_outline default_elements)) \<and>
             map fst (fallback_chapter chapter_num chapter_outline default_elements) =
               ''chapter_number'' # chapter_schema \<and>
             map_of (fallback_chapter chapter_num chapter_outline default_elements) ''key_events'' =
               Some (PList [])"
proof -
  obtain default_elements where d: "get_default_genre_elements g chapter_num = Inr default_elements"
    using default_elements_return [OF assms(2)] by blast
  have "generate_chapter g chain parse chapter_num =
          (g, Inr (fallback_chapter chapter_num chapter_outline default_elements))"
    by (simp add: generate_chapter_def assms(1,2,3) 
        try_chapter_parse_failure [where parse = parse and response_content = response_content,
          OF assms(4)] d)
  then show ?thesis
    by (simp add: d fallback_chapter_def chapter_schema_def)
qed

theorem parse_failure_gives_fallback_witness:
  "rejecting_parse ''not json'' = Inl OutputParserException \<and>
   generate_chapter mystery_generator not_json_chain rejecting_parse 2 =
     (mystery_generator,
      Inr [(''chapter_number'', PInt 2),
           (''title'', PStr ''The Village''),
           (''content'', PStr ''Error generating chapter content.''),
           (''summary'', PStr ''Nobody admits to writing it.''),
           (''key_events'', PList []),
           (''character_development'', PStr ''No character development tracked.''),
           (''cultural_elements_used'', PList []),
           (''genre_elements_used'',
            PList [PStr ''Investigation progress and red herrings (Mystery)'']),
           (''next_chapter_hooks'', PList [])])"
proof -
  have h3: "not_json_chain 2
              [(''chapter_number'', PInt 2), (''title'', PStr ''The Village''),
               (''summary'', PStr ''Nobody admits to writing it.'')]
              (fst (get_context_for_chapter (context_manager mystery_generator) 2))
              (join_comma (genres mystery_generator))
              [(''chapter_position'', PStr ''2/4''),
               (''narrative_phase'', PStr ''complication''),
               (''focus'', PStr ''developing''),
               (''primary_genre'', PStr ''Mystery''),
               (''secondary_genre'', PStr ''Mystery''),
               (''genre_stages'',
                PDict [(''Mystery'', PDict [(''current_stage'', PStr ''Red herrings''),
                                           (''emphasis'', PStr ''primary'')])]),
               (''blend_recommendation'',
                PStr ''This chapter should primarily emphasize Mystery elements while incorporating supporting elements from Mystery.'')] =
            Inr ''not json''"
    by (simp add: not_json_chain_def)
  have h4: "rejecting_parse ''not json'' = Inl OutputParserException"
    by (simp add: rejecting_parse_def)
  show ?thesis
    using parse_failure_gives_fallback
            [where chain = not_json_chain and parse = rejecting_parse
               and response_content = "''not json''",
             OF mystery_outline_2 mystery_guidance_2 h3 h4] h4
    by (simp add: mystery_defaults_2 fallback_chapter_def dict_get_def)
qed

section \<open>The claim about the chapter outlines\<close>

text \<open>
  C8 does not hold of the code. When the parsed result lists its one chapter as a string
  and one chapter is asked for, the loop that completes the chapters raises a TypeError
  on the string (it has no item assignment); the handler then appends the stub of chapter
  1 to the list the block has already filled, and the function returns two items, the
  string and the stub, where one outline was asked for.
\<close>

theorem string_chapter_gets_extra_stub:
  "generate_chapter_outlines (Inr ''reply'') one_title_parse ''Fast-paced'' 1 [''Mystery''] =
     Inr (PList [PStr ''The Letter'', outline_stub ''Mystery'' ''Fast-paced'' 0]) \<and>
   returned_count
     (generate_chapter_outlines (Inr ''reply'') one_title_parse ''Fast-paced'' 1 [''Mystery'']) =
     Some 2"
  by (simp add: generate_chapter_outlines_def try_outlines_def one_title_parse_def dict_get_def
      ensure_all_def ensure_chapter_def set_default_def append_stubs_list returned_count_def)

end
